theory Spec2Isabelle
  imports Main "HOL-Library.AList" "HOL-Library.Sublist"
begin

section \<open>Python values and errors\<close>

text \<open>
  The charm is Python 3. A Python \<open>str\<close> is represented by the list of the bytes of its
  UTF-8 encoding (\<^typ>\<open>string\<close>): equality, concatenation and splitting at an ASCII
  separator are the same on both sides of that representation.
  Every exception the handlers can raise is a value of \<open>error\<close>; a computation that may
  raise returns \<open>error + 'a\<close>, with \<open>Inl\<close> for the exception.
\<close>

datatype error =
    IndexError
  | ValueError
  | AttributeError
  | UnicodeDecodeError
  | FileExistsError
  | FileNotFoundError
  | NotADirectoryError
  | CalledProcessError "string list" int
  | Exception string

section \<open>String helpers of the standard library\<close>

text \<open>\<open>s.split(c)\<close> for a separator of one character: never empty, \<open>''.split(c) == ['']\<close>.\<close>

fun split_chr :: "char \<Rightarrow> string \<Rightarrow> string list" where
  "split_chr c [] = [[]]"
| "split_chr c (x # xs) =
     (if x = c then [] # split_chr c xs
      else (case split_chr c xs of
              [] \<Rightarrow> [[x]]
            | w # ws \<Rightarrow> (x # w) # ws))"

text \<open>\<open>sep.join(xs)\<close>.\<close>

fun join :: "string \<Rightarrow> string list \<Rightarrow> string" where
  "join sep [] = []"
| "join sep [x] = x"
| "join sep (x # y # ys) = x @ sep @ join sep (y # ys)"

text \<open>\<open>xs[0]\<close> raises IndexError on the empty list.\<close>

definition index0 :: "'a list \<Rightarrow> error + 'a" where
  "index0 xs = (case xs of [] \<Rightarrow> Inl IndexError | x # _ \<Rightarrow> Inr x)"

section \<open>Address derivation\<close>

text \<open>
  \<open>get_dns_ip\<close> and \<open>get_sdn_ip\<close>, lines 169-182. The slice \<open>[0:-1]\<close> is \<^const>\<open>butlast\<close>
  (the empty list stays empty).
\<close>

definition get_dns_ip :: "string \<Rightarrow> error + string" where
  "get_dns_ip cidr =
     (case index0 (split_chr CHR ''/'' cidr) of
        Inl e \<Rightarrow> Inl e
      | Inr ip \<Rightarrow> Inr (join ''.'' (butlast (split_chr CHR ''.'' ip)) @ ''.10''))"

definition get_sdn_ip :: "string \<Rightarrow> error + string" where
  "get_sdn_ip cidr =
     (case index0 (split_chr CHR ''/'' cidr) of
        Inl e \<Rightarrow> Inl e
      | Inr ip \<Rightarrow> Inr (join ''.'' (butlast (split_chr CHR ''.'' ip)) @ ''.1''))"

text \<open>A decimal field of a CIDR: a non-empty run of digits.\<close>

definition decimal :: "string \<Rightarrow> bool" where
  "decimal s = (s \<noteq> [] \<and> list_all (\<lambda>c. c \<in> set ''0123456789'') s)"

section \<open>More of the standard library\<close>

text \<open>
  \<open>os.path.join(a, b)\<close> on POSIX: an absolute \<open>b\<close> replaces \<open>a\<close>; otherwise the two are
  joined by one slash unless \<open>a\<close> is empty or already ends with one.
\<close>

definition path_join :: "string \<Rightarrow> string \<Rightarrow> string" where
  "path_join a b =
     (if b \<noteq> [] \<and> hd b = CHR ''/'' then b
      else if a = [] \<or> last a = CHR ''/'' then a @ b
      else a @ ''/'' @ b)"

text \<open>
  The part of the file system the charm looks at: the entries that exist, each a regular
  file or a directory, under the path they are written as. The root and the working
  directory are directories. What may fail in the model is the shape of the tree; the
  unit's process is taken to have the rights to create what it asks for.
\<close>

datatype kind = File | Dir

type_synonym tree = "(string \<times> kind) list"

definition slashes :: "string \<Rightarrow> bool" where
  "slashes p = list_all (\<lambda>c. c = CHR ''/'') p"

definition kind_of :: "tree \<Rightarrow> string \<Rightarrow> kind option" where
  "kind_of fs p = (if slashes p then Some Dir else map_of fs p)"

text \<open>\<open>os.path.exists(p)\<close>; the empty path does not exist.\<close>

definition exists :: "tree \<Rightarrow> string \<Rightarrow> bool" where
  "exists fs p = (p \<noteq> [] \<and> kind_of fs p \<noteq> None)"

text \<open>
  \<open>os.path.split(p)\<close> on POSIX: the tail is what follows the last slash, the head what
  precedes it, without its trailing slashes unless it consists of slashes only.
\<close>

definition psplit :: "string \<Rightarrow> string \<times> string" where
  "psplit p =
     (let head = rev (dropWhile (\<lambda>c. c \<noteq> CHR ''/'') (rev p));
          tail = rev (takeWhile (\<lambda>c. c \<noteq> CHR ''/'') (rev p))
      in (if head \<noteq> [] \<and> \<not> slashes head
          then rev (dropWhile (\<lambda>c. c = CHR ''/'') (rev head)) else head,
          tail))"

text \<open>
  The head and tail \<open>os.makedirs\<close> works with: it splits again when the tail is empty
  (a path that ends with a slash).
\<close>

definition parent_of :: "string \<Rightarrow> string \<times> string" where
  "parent_of name = (if snd (psplit name) = [] then psplit (fst (psplit name)) else psplit name)"

text \<open>
  \<open>os.mkdir(name)\<close>: the entry must not exist and its parent must be a directory.
\<close>

definition mkdir :: "string \<Rightarrow> tree \<Rightarrow> (error + unit) \<times> tree" where
  "mkdir name fs =
     (if name = [] then (Inl FileNotFoundError, fs)
      else if exists fs name then (Inl FileExistsError, fs)
      else (case kind_of fs (fst (parent_of name)) of
              None \<Rightarrow> (Inl FileNotFoundError, fs)
            | Some File \<Rightarrow> (Inl NotADirectoryError, fs)
            | Some Dir \<Rightarrow> (Inr (), AList.update name Dir fs)))"

text \<open>
  \<open>os.makedirs(name)\<close>, as the standard library writes it: the missing head is made
  first (a FileExistsError from there is passed over), nothing more is done for a tail
  \<open>.\<close>, and then the entry itself is made. Each call is on a shorter path.
\<close>

function makedirs :: "string \<Rightarrow> tree \<Rightarrow> (error + unit) \<times> tree" where
  "makedirs name fs =
     (if fst (parent_of name) \<noteq> [] \<and> snd (parent_of name) \<noteq> []
         \<and> \<not> exists fs (fst (parent_of name))
      then (case makedirs (fst (parent_of name)) fs of
              (Inl err, fs') \<Rightarrow>
                if err = FileExistsError
                then (if snd (parent_of name) = ''.'' then (Inr (), fs') else mkdir name fs')
                else (Inl err, fs')
            | (Inr u, fs') \<Rightarrow>
                if snd (parent_of name) = ''.'' then (Inr (), fs') else mkdir name fs')
      else mkdir name fs)"
  by pat_completeness auto
termination
proof (relation "measure (\<lambda>(name, fs). length name)", goal_cases)
  case 1
  show ?case by simp
next
  case (2 name fs)
  have len: "length (fst (psplit p)) + length (snd (psplit p)) \<le> length p" for p
  proof -
    let ?h = "rev (dropWhile (\<lambda>c. c \<noteq> CHR ''/'') (rev p))"
    let ?t = "rev (takeWhile (\<lambda>c. c \<noteq> CHR ''/'') (rev p))"
    have "length ?h + length ?t = length p"
      using takeWhile_dropWhile_id [of "\<lambda>c. c \<noteq> CHR ''/''" "rev p"]
      by (metis add.commute length_append length_rev)
    moreover have "length (rev (dropWhile (\<lambda>c. c = CHR ''/'') (rev ?h))) \<le> length ?h"
      by (simp add: length_dropWhile_le)
    ultimately show ?thesis by (simp add: psplit_def Let_def)
  qed
  have tail: "snd (parent_of name) \<noteq> []" using 2 by simp
  have "length (fst (parent_of name)) < length name"
  proof (cases "snd (psplit name) = []")
    case True
    then have p: "parent_of name = psplit (fst (psplit name))" by (simp add: parent_of_def)
    have c: "0 < length (snd (psplit (fst (psplit name))))" using tail p by simp
    have "length (fst (psplit (fst (psplit name)))) < length name"
      using len [of "fst (psplit name)"] len [of name] c by linarith
    then show ?thesis by (simp add: p)
  next
    case False
    then have p: "parent_of name = psplit name" by (simp add: parent_of_def)
    have c: "0 < length (snd (psplit name))" using False by simp
    have "length (fst (psplit name)) < length name" using len [of name] c by linarith
    then show ?thesis by (simp add: p)
  qed
  then show ?case by simp
qed

declare makedirs.simps [simp del]

text \<open>
  \<open>template.format(*args)\<close> for string arguments, on the fragment the charm uses: literal
  text, the doubled braces, and replacement fields \<open>{n}\<close> with a decimal index. A field
  whose index is not below the number of arguments raises IndexError, as in Python; a
  template outside the fragment (a lone brace, a field that is not a decimal index) is
  reported as ValueError.
\<close>

datatype fstate = Lit | Opened | Idx nat | Closing

definition digit_val :: "char \<Rightarrow> nat option" where
  "digit_val c = map_of (zip ''0123456789'' [0, 1, 2, 3, 4, 5, 6, 7, 8, 9]) c"

definition prepend :: "string \<Rightarrow> error + string \<Rightarrow> error + string" where
  "prepend s r = (case r of Inl e \<Rightarrow> Inl e | Inr t \<Rightarrow> Inr (s @ t))"

fun fmt :: "fstate \<Rightarrow> string list \<Rightarrow> string \<Rightarrow> error + string" where
  "fmt Lit args [] = Inr []"
| "fmt Lit args (c # cs) =
     (if c = CHR ''{'' then fmt Opened args cs
      else if c = CHR ''}'' then fmt Closing args cs
      else prepend [c] (fmt Lit args cs))"
| "fmt Opened args [] = Inl ValueError"
| "fmt Opened args (c # cs) =
     (if c = CHR ''{'' then prepend ''{'' (fmt Lit args cs)
      else (case digit_val c of
              None \<Rightarrow> Inl ValueError
            | Some d \<Rightarrow> fmt (Idx d) args cs))"
| "fmt (Idx n) args [] = Inl ValueError"
| "fmt (Idx n) args (c # cs) =
     (if c = CHR ''}'' then
        (if n < length args then prepend (args ! n) (fmt Lit args cs) else Inl IndexError)
      else (case digit_val c of
              None \<Rightarrow> Inl ValueError
            | Some d \<Rightarrow> fmt (Idx (10 * n + d)) args cs))"
| "fmt Closing args [] = Inl ValueError"
| "fmt Closing args (c # cs) =
     (if c = CHR ''}'' then prepend ''}'' (fmt Lit args cs) else Inl ValueError)"

definition format_py :: "string \<Rightarrow> string list \<Rightarrow> error + string" where
  "format_py template args = fmt Lit args template"

text \<open>
  \<open>shlex.split(s)\<close>: the POSIX lexer with \<open>whitespace_split\<close> and no comment characters.
  The states are those of \<open>shlex.read_token\<close>: between tokens, inside a word, inside a
  quotation, after a backslash (remembering the state to return to). End of input inside
  a quotation or after a backslash raises ValueError.
\<close>

datatype lexstate = Between | Word | Quoted char | Escaped lexstate

definition whitespace :: "char \<Rightarrow> bool" where
  "whitespace c = (c \<in> set [CHR '' '', CHR 0x09, CHR 0x0D, CHR 0x0A])"

definition quote_chr :: "char \<Rightarrow> bool" where
  "quote_chr c = (c = CHR 0x27 \<or> c = CHR 0x22)"

definition emit_token :: "string \<Rightarrow> bool \<Rightarrow> error + string list \<Rightarrow> error + string list" where
  "emit_token tok quoted r =
     (if tok \<noteq> [] \<or> quoted
      then (case r of Inl e \<Rightarrow> Inl e | Inr ts \<Rightarrow> Inr (tok # ts))
      else r)"

fun lex :: "lexstate \<Rightarrow> string \<Rightarrow> bool \<Rightarrow> string \<Rightarrow> error + string list" where
  "lex Between tok quoted [] = Inr []"
| "lex Between tok quoted (c # cs) =
     (if whitespace c then lex Between tok quoted cs
      else if c = CHR 0x5C then lex (Escaped Word) tok quoted cs
      else if quote_chr c then lex (Quoted c) tok True cs
      else lex Word [c] quoted cs)"
| "lex Word tok quoted [] = emit_token tok quoted (Inr [])"
| "lex Word tok quoted (c # cs) =
     (if whitespace c then emit_token tok quoted (lex Between [] False cs)
      else if quote_chr c then lex (Quoted c) tok True cs
      else if c = CHR 0x5C then lex (Escaped Word) tok quoted cs
      else lex Word (tok @ [c]) quoted cs)"
| "lex (Quoted q) tok quoted [] = Inl ValueError"
| "lex (Quoted q) tok quoted (c # cs) =
     (if c = q then lex Word tok quoted cs
      else if c = CHR 0x5C \<and> q = CHR 0x22 then lex (Escaped (Quoted q)) tok quoted cs
      else lex (Quoted q) (tok @ [c]) quoted cs)"
| "lex (Escaped back) tok quoted [] = Inl ValueError"
| "lex (Escaped back) tok quoted (c # cs) =
     (case back of
        Quoted q \<Rightarrow>
          lex back (if c \<noteq> CHR 0x5C \<and> c \<noteq> q then tok @ [CHR 0x5C, c] else tok @ [c]) quoted cs
      | _ \<Rightarrow> lex Word (tok @ [c]) quoted cs)"

definition shlex_split :: "string \<Rightarrow> error + string list" where
  "shlex_split s = lex Between [] False s"

text \<open>
  \<open>bytes.rstrip()\<close> removes the trailing ASCII whitespace bytes; \<open>bytes.decode('utf-8')\<close>
  raises UnicodeDecodeError unless the bytes are well-formed UTF-8 (no overlong form, no
  surrogate, nothing above U+10FFFF), and otherwise yields the text they encode, which
  is represented by the same bytes.
\<close>

definition space_byte :: "char \<Rightarrow> bool" where
  "space_byte c = (c \<in> set [CHR '' '', CHR 0x09, CHR 0x0A, CHR 0x0B, CHR 0x0C, CHR 0x0D])"

definition rstrip :: "string \<Rightarrow> string" where
  "rstrip s = rev (dropWhile space_byte (rev s))"

definition between :: "nat \<Rightarrow> nat \<Rightarrow> nat \<Rightarrow> bool" where
  "between lo hi b = (lo \<le> b \<and> b \<le> hi)"

fun valid_utf8 :: "nat list \<Rightarrow> bool" where
  "valid_utf8 [] = True"
| "valid_utf8 (b # bs) =
     (if b < 0x80 then valid_utf8 bs
      else if between 0xC2 0xDF b then
        (case bs of
           c1 # r \<Rightarrow> between 0x80 0xBF c1 \<and> valid_utf8 r
         | _ \<Rightarrow> False)
      else if between 0xE0 0xEF b then
        (case bs of
           c1 # c2 # r \<Rightarrow>
             between (if b = 0xE0 then 0xA0 else 0x80) (if b = 0xED then 0x9F else 0xBF) c1
             \<and> between 0x80 0xBF c2 \<and> valid_utf8 r
         | _ \<Rightarrow> False)
      else if between 0xF0 0xF4 b then
        (case bs of
           c1 # c2 # c3 # r \<Rightarrow>
             between (if b = 0xF0 then 0x90 else 0x80) (if b = 0xF4 then 0x8F else 0xBF) c1
             \<and> between 0x80 0xBF c2 \<and> between 0x80 0xBF c3 \<and> valid_utf8 r
         | _ \<Rightarrow> False)
      else False)"

definition decode_utf8 :: "string \<Rightarrow> error + string" where
  "decode_utf8 bs = (if valid_utf8 (map of_char bs) then Inr bs else Inl UnicodeDecodeError)"

section \<open>Values, collaborators and the state of the unit\<close>

text \<open>
  Values held in the charm configuration and in the unit's key-value store. A Python
  \<open>dict\<close> keeps insertion order and replaces the value of a key in place, which is what
  \<^const>\<open>AList.update\<close> does on an association list.
\<close>

datatype pyval =
    PNone
  | PBool bool
  | PInt int
  | PStr string
  | PList "pyval list"
  | PDict "(string \<times> pyval) list"

type_synonym dict = "(string \<times> pyval) list"

fun truthy :: "pyval \<Rightarrow> bool" where
  "truthy PNone = False"
| "truthy (PBool b) = b"
| "truthy (PInt i) = (i \<noteq> 0)"
| "truthy (PStr s) = (s \<noteq> [])"
| "truthy (PList l) = (l \<noteq> [])"
| "truthy (PDict d) = (d \<noteq> [])"

text \<open>\<open>d.get(k)\<close> (None when the key is absent) and \<open>d.update(e)\<close>.\<close>

definition dict_get :: "dict \<Rightarrow> string \<Rightarrow> pyval" where
  "dict_get d k = (case map_of d k of None \<Rightarrow> PNone | Some v \<Rightarrow> v)"

definition dict_update :: "dict \<Rightarrow> dict \<Rightarrow> dict" where
  "dict_update d e = fold (\<lambda>(k, v). AList.update k v) e d"

text \<open>
  The etcd relation object handed to \<open>start_master\<close>: whether Python takes it as true in
  \<open>if reldata:\<close>, and what \<open>get_connection_string()\<close> returns.
\<close>

record etcd =
  rel_truthy :: bool
  connection_string :: string

text \<open>
  What the collaborators answer during one run of a handler: the charm directory, the
  configuration (\<open>hookenv.config()\<close>), the key-value store (\<open>unitdata.kv()\<close>),
  \<open>hookenv.unit_get\<close>, and for every argument vector the exit code and the captured
  output of the process it starts. Within one handler no argument vector is started
  twice. The calls into charmhelpers, charms.reactive and the relation object are taken
  to return normally; the exceptions modelled are those of the source itself, of
  \<open>check_call\<close> and \<open>check_output\<close> on a non-zero exit, and of the built-ins above.
\<close>

record env =
  charm_dir :: string
  config :: dict
  kv :: dict
  unit_get :: "string \<Rightarrow> string"
  proc :: "string list \<Rightarrow> int \<times> string"

text \<open>Every effect of a handler on the outside is recorded, in order.\<close>

datatype event =
    StatusSet string string
  | Log string
  | Print string
  | Call "string list" int
  | SetState string
  | RemoveState string
  | MakeDirs string
  | SaveClientCredentials string string string
  | Render string string dict

text \<open>
  The state a handler works on: the reactive flags that are set, the file tree, and the
  effects so far.
\<close>

record world =
  flags :: "string set"
  paths :: tree
  trace :: "event list"

type_synonym 'a run = "world \<Rightarrow> (error + 'a) \<times> world"

definition ret :: "'a \<Rightarrow> 'a run" where
  "ret x = (\<lambda>w. (Inr x, w))"

definition throw :: "error \<Rightarrow> 'a run" where
  "throw e = (\<lambda>w. (Inl e, w))"

definition lift :: "error + 'a \<Rightarrow> 'a run" where
  "lift r = (\<lambda>w. (r, w))"

definition bnd :: "'a run \<Rightarrow> ('a \<Rightarrow> 'b run) \<Rightarrow> 'b run" where
  "bnd m f = (\<lambda>w. case m w of (Inl e, w') \<Rightarrow> (Inl e, w') | (Inr x, w') \<Rightarrow> f x w')"

definition emit :: "event \<Rightarrow> unit run" where
  "emit ev = (\<lambda>w. (Inr (), w\<lparr>trace := trace w @ [ev]\<rparr>))"

definition status_set :: "string \<Rightarrow> string \<Rightarrow> unit run" where
  "status_set level message = emit (StatusSet level message)"

definition set_state :: "string \<Rightarrow> unit run" where
  "set_state f = (\<lambda>w. (Inr (), w\<lparr>flags := insert f (flags w), trace := trace w @ [SetState f]\<rparr>))"

definition remove_state :: "string \<Rightarrow> unit run" where
  "remove_state f = (\<lambda>w. (Inr (), w\<lparr>flags := flags w - {f}, trace := trace w @ [RemoveState f]\<rparr>))"

text \<open>\<open>call(split(command))\<close>, \<open>check_call(split(command))\<close> and \<open>check_output(argv)\<close>.\<close>

definition call :: "env \<Rightarrow> string \<Rightarrow> int run" where
  "call e command =
     bnd (lift (shlex_split command)) (\<lambda>argv.
     bnd (emit (Call argv (fst (proc e argv)))) (\<lambda>_.
     ret (fst (proc e argv))))"

definition check_call :: "env \<Rightarrow> string \<Rightarrow> unit run" where
  "check_call e command =
     bnd (lift (shlex_split command)) (\<lambda>argv.
     bnd (emit (Call argv (fst (proc e argv)))) (\<lambda>_.
     if fst (proc e argv) \<noteq> 0 then throw (CalledProcessError argv (fst (proc e argv)))
     else ret ()))"

definition check_output :: "env \<Rightarrow> string list \<Rightarrow> string run" where
  "check_output e argv =
     bnd (emit (Call argv (fst (proc e argv)))) (\<lambda>_.
     if fst (proc e argv) \<noteq> 0 then throw (CalledProcessError argv (fst (proc e argv)))
     else ret (snd (proc e argv)))"

section \<open>The handlers\<close>

text \<open>\<open>install\<close>, lines 18-34; \<open>install_loop\<close> is its \<open>for\<close> loop.\<close>

fun install_loop :: "env \<Rightarrow> string \<Rightarrow> string \<Rightarrow> string list \<Rightarrow> unit run" where
  "install_loop e files_dir dest_dir [] = ret ()"
| "install_loop e files_dir dest_dir (service # services) =
     bnd (lift (format_py ''install {0}/{1} {3}'' [files_dir, service, dest_dir])) (\<lambda>install.
     bnd (call e install) (\<lambda>return_code.
     if return_code \<noteq> 0 then
       bnd (lift (format_py ''Unable to install {0}'' [service])) (\<lambda>m. throw (Exception m))
     else install_loop e files_dir dest_dir services))"

definition install :: "env \<Rightarrow> unit run" where
  "install e =
     (let files_dir = path_join (charm_dir e) ''files'';
          archive = path_join files_dir ''kubernetes.tar.gz''
      in bnd (lift (format_py ''tar -xvzf {0} -C {1}'' [archive, files_dir])) (\<lambda>command.
         bnd (call e command) (\<lambda>return_code.
         install_loop e files_dir ''/usr/local/bin/''
           [''kube-apiserver'', ''kube-controller-manager'', ''kube-scheduler'', ''kube-dns''])))"

text \<open>\<open>arch\<close>, lines 80-92.\<close>

definition arch :: "env \<Rightarrow> string run" where
  "arch e =
     bnd (check_output e [''dpkg'', ''--print-architecture'']) (\<lambda>out.
     bnd (lift (decode_utf8 (rstrip out))) (\<lambda>architecture.
     if architecture \<notin> set [''amd64'', ''arm'', ''arm64'', ''ppc64le''] then
       bnd (lift (format_py ''Unsupported machine architecture: {0}'' [architecture])) (\<lambda>message.
       bnd (status_set ''blocked'' message) (\<lambda>_.
       throw (Exception message)))
     else ret architecture))"

text \<open>
  \<open>get_dns_ip(v)\<close> for a value read from the store or the configuration: only a \<open>str\<close>
  has the method \<open>split\<close>, any other value raises AttributeError.
\<close>

definition get_dns_ip_of :: "pyval \<Rightarrow> error + string" where
  "get_dns_ip_of v = (case v of PStr s \<Rightarrow> get_dns_ip s | _ \<Rightarrow> Inl AttributeError)"

text \<open>\<open>gather_sdn_data\<close>, lines 144-166. It only reads, so it is a function of the answers.\<close>

definition gather_sdn_data :: "env \<Rightarrow> error + dict" where
  "gather_sdn_data e =
     (let subnet = dict_get (kv e) ''sdn_subnet'' in
      case (if truthy subnet then get_dns_ip_of subnet
            else get_dns_ip_of (dict_get (config e) ''cidr'')) of
        Inl err \<Rightarrow> Inl err
      | Inr dns_server \<Rightarrow>
          (let pillar = AList.update ''dns_server'' (PStr dns_server) [];
               pillar = AList.update ''dns_replicas'' (PInt 1) pillar;
               pillar = AList.update ''dns_domain'' (dict_get (config e) ''dns_domain'') pillar
           in Inr (AList.update ''pillar'' (PDict pillar) [])))"

text \<open>\<open>render_service\<close>, lines 194-203.\<close>

definition render_service :: "string \<Rightarrow> dict \<Rightarrow> unit run" where
  "render_service service_name context =
     bnd (lift (format_py ''{0}.service'' [service_name])) (\<lambda>source.
     bnd (emit (Render source (path_join ''/etc/systemd/system'' service_name) context)) (\<lambda>_.
     bnd (lift (format_py ''/etc/defaults/{0}'' [service_name])) (\<lambda>conf_directory.
     bnd (lift (format_py ''{0}.defaults'' [service_name])) (\<lambda>source.
     emit (Render source (path_join conf_directory service_name) context)))))"

text \<open>
  \<open>if not os.path.exists(d): os.makedirs(d)\<close>, lines 123-127. An exception of
  \<open>os.makedirs\<close> is raised on; the event records a creation that succeeded.
\<close>

definition ensure_dir :: "string \<Rightarrow> unit run" where
  "ensure_dir d =
     (\<lambda>w. if \<not> exists (paths w) d
          then (case makedirs d (paths w) of
                  (Inl err, fs) \<Rightarrow> (Inl err, w\<lparr>paths := fs\<rparr>)
                | (Inr u, fs) \<Rightarrow> (Inr (), w\<lparr>paths := fs, trace := trace w @ [MakeDirs d]\<rparr>))
          else (Inr (), w))"

text \<open>
  \<open>render_files\<close>, lines 95-141, in two parts: \<open>build_context\<close> is lines 98-134 (the
  context and the two directories), \<open>render_files\<close> hands the context to the four
  \<open>render_service\<close> calls of lines 138-141.
\<close>

definition etcd_context :: "etcd option \<Rightarrow> dict \<Rightarrow> dict run" where
  "etcd_context reldata context =
     (case reldata of
        None \<Rightarrow> ret context
      | Some r \<Rightarrow>
          if rel_truthy r then
            (let etcd_dir = ''/etc/ssl/etcd'';
                 ca = path_join etcd_dir ''client-ca.pem'';
                 key = path_join etcd_dir ''client-key.pem'';
                 cert = path_join etcd_dir ''client-cert.pem''
             in bnd (emit (SaveClientCredentials key cert ca)) (\<lambda>_.
                ret (dict_update context
                  [(''etcd_dir'', PStr etcd_dir),
                   (''connection_string'', PStr (connection_string r)),
                   (''etcd_ca'', PStr ca),
                   (''etcd_key'', PStr key),
                   (''etcd_cert'', PStr cert)])))
          else ret context)"

definition build_context :: "env \<Rightarrow> etcd option \<Rightarrow> dict run" where
  "build_context e reldata =
     bnd (lift (gather_sdn_data e)) (\<lambda>sdn_data.
     bnd (etcd_context reldata (dict_update (dict_update [] sdn_data) (config e))) (\<lambda>context.
     bnd (ensure_dir (path_join (charm_dir e) ''files/kubernetes'')) (\<lambda>_.
     bnd (ensure_dir (path_join (charm_dir e) ''files/manifests'')) (\<lambda>_.
     bnd (arch e) (\<lambda>a.
     ret (dict_update context
       [(''arch'', PStr a),
        (''master_address'', PStr (unit_get e ''private-address'')),
        (''manifest_directory'', PStr (path_join (charm_dir e) ''files/manifests'')),
        (''public_address'', PStr (unit_get e ''public-address'')),
        (''private_address'', PStr (unit_get e ''private-address''))]))))))"

definition render_files :: "env \<Rightarrow> etcd option \<Rightarrow> unit run" where
  "render_files e reldata =
     bnd (build_context e reldata) (\<lambda>context.
     bnd (render_service ''kube-apiserver'' context) (\<lambda>_.
     bnd (render_service ''kube-controller-manager'' context) (\<lambda>_.
     bnd (render_service ''kube-scheduler'' context) (\<lambda>_.
     render_service ''kube-dns'' context))))"

text \<open>\<open>start_service\<close>, lines 185-191.\<close>

definition start_service :: "env \<Rightarrow> string \<Rightarrow> bool run" where
  "start_service e service_name =
     bnd (lift (format_py ''systemctl start {0}'' [service_name])) (\<lambda>start.
     bnd (emit (Print start)) (\<lambda>_.
     bnd (call e start) (\<lambda>return_code.
     ret (return_code = 0))))"

text \<open>
  \<open>start_master\<close>, lines 37-52; \<open>start_loop\<close> is its \<open>for\<close> loop. The framework runs the
  handler when \<open>start_master_gate\<close> holds.
\<close>

fun start_loop :: "env \<Rightarrow> string list \<Rightarrow> unit run" where
  "start_loop e [] = ret ()"
| "start_loop e (service # services) =
     bnd (start_service e service) (\<lambda>started.
     bnd (if started
          then bnd (lift (format_py ''{0}.available'' [service])) set_state
          else ret ()) (\<lambda>_.
     start_loop e services))"

definition start_master :: "env \<Rightarrow> etcd \<Rightarrow> unit run" where
  "start_master e etcd =
     bnd (status_set ''maintenance'' ''Rendering the Kubernetes master systemd files.'') (\<lambda>_.
     bnd (render_files e (Some etcd)) (\<lambda>_.
     bnd (status_set ''maintenance'' ''Starting the Kubernetes master services.'') (\<lambda>_.
     start_loop e [''kube-apiserver'', ''kube-controller-manager'', ''kube-scheduler''])))"

definition start_master_gate :: "world \<Rightarrow> bool" where
  "start_master_gate w =
     (''k8s.certificate.authority available'' \<in> flags w \<and> ''etcd.available'' \<in> flags w)"

text \<open>
  \<open>launch_dns\<close>, lines 55-77. The framework runs the handler when \<open>launch_dns_gate\<close>
  holds.
\<close>

definition launch_dns :: "env \<Rightarrow> unit run" where
  "launch_dns e =
     bnd (status_set ''maintenance'' ''Rendering the Kubernetes DNS systemd files.'') (\<lambda>_.
     bnd (call e ''kubectl cluster-info'') (\<lambda>return_code.
     if return_code \<noteq> 0 then
       bnd (emit (Log ''kubectl command failed, waiting for apiserver to start.'')) (\<lambda>_.
       remove_state ''kubedns.available'')
     else
       bnd (call e ''kubectl get namespace kube-system'') (\<lambda>return_code.
       bnd (if return_code \<noteq> 0
            then check_call e ''kubectl create namespace kube-system''
            else ret ()) (\<lambda>_.
       bnd (render_files e None) (\<lambda>_.
       bnd (start_service e ''kube-dns'') (\<lambda>started.
       if started then set_state ''kube-dns.available'' else ret ()))))))"

definition launch_dns_gate :: "world \<Rightarrow> bool" where
  "launch_dns_gate w = (''apiserver.available'' \<in> flags w \<and> ''kube-dns.available'' \<notin> flags w)"

section \<open>Effects of a run\<close>

text \<open>
  What a run adds to the trace, and two properties of runs used in the proofs: every
  event added satisfies a predicate; the flags are left as they were. The remaining
  definitions name what occurs in the statements below: event lists, the two
  directory checks of lines 121-127 (\<open>work_dirs\<close>), the dict literals, and the context
  that the merges of \<open>render_files\<close> add up to (\<open>rendered_context\<close>).
\<close>

definition effects :: "'a run \<Rightarrow> world \<Rightarrow> event list" where
  "effects m w = drop (length (trace w)) (trace (snd (m w)))"

definition keeps_flags :: "'a run \<Rightarrow> bool" where
  "keeps_flags m = (\<forall>w. flags (snd (m w)) = flags w)"

definition emits :: "(event \<Rightarrow> bool) \<Rightarrow> 'a run \<Rightarrow> bool" where
  "emits P m = (\<forall>w. \<exists>evs. trace (snd (m w)) = trace w @ evs \<and> list_all P evs)"

definition start_events :: "env \<Rightarrow> string \<Rightarrow> event list" where
  "start_events e s =
     [Print (''systemctl start '' @ s),
      Call [''systemctl'', ''start'', s] (fst (proc e [''systemctl'', ''start'', s]))]
     @ (if fst (proc e [''systemctl'', ''start'', s]) = 0 then [SetState (s @ ''.available'')] else [])"

definition start_flags :: "env \<Rightarrow> string \<Rightarrow> string set" where
  "start_flags e s = (if fst (proc e [''systemctl'', ''start'', s]) = 0 then {s @ ''.available''} else {})"

definition service_renders :: "dict \<Rightarrow> string \<Rightarrow> event list" where
  "service_renders c n =
     [Render (n @ ''.service'') (''/etc/systemd/system/'' @ n) c,
      Render (n @ ''.defaults'') (''/etc/defaults/'' @ n @ ''/'' @ n) c]"


definition work_dirs :: "env \<Rightarrow> unit run" where
  "work_dirs e =
     bnd (ensure_dir (path_join (charm_dir e) ''files/kubernetes'')) (\<lambda>_.
     ensure_dir (path_join (charm_dir e) ''files/manifests''))"

definition final_entries :: "env \<Rightarrow> string \<Rightarrow> dict" where
  "final_entries e a =
     [(''arch'', PStr a),
      (''master_address'', PStr (unit_get e ''private-address'')),
      (''manifest_directory'', PStr (path_join (charm_dir e) ''files/manifests'')),
      (''public_address'', PStr (unit_get e ''public-address'')),
      (''private_address'', PStr (unit_get e ''private-address''))]"

definition etcd_entries :: "etcd \<Rightarrow> dict" where
  "etcd_entries r =
     [(''etcd_dir'', PStr ''/etc/ssl/etcd''),
      (''connection_string'', PStr (connection_string r)),
      (''etcd_ca'', PStr ''/etc/ssl/etcd/client-ca.pem''),
      (''etcd_key'', PStr ''/etc/ssl/etcd/client-key.pem''),
      (''etcd_cert'', PStr ''/etc/ssl/etcd/client-cert.pem'')]"



text \<open>
  The last three statements of \<open>launch_dns\<close> (lines 75-77), and the credential
  materialization \<open>render_files\<close> performs for a relation object.
\<close>

definition dns_tail :: "env \<Rightarrow> unit run" where
  "dns_tail e =
     bnd (render_files e None) (\<lambda>_.
     bnd (start_service e ''kube-dns'') (\<lambda>started.
     if started then set_state ''kube-dns.available'' else ret ()))"

definition credential_events :: "etcd option \<Rightarrow> event list" where
  "credential_events reldata =
     (case reldata of
        None \<Rightarrow> []
      | Some r \<Rightarrow>
          if rel_truthy r
          then [SaveClientCredentials ''/etc/ssl/etcd/client-key.pem''
                  ''/etc/ssl/etcd/client-cert.pem'' ''/etc/ssl/etcd/client-ca.pem'']
          else [])"

section \<open>Example inputs\<close>

text \<open>
  A healthy unit (every process exits 0, the machine is amd64), a relation object, a
  fresh state (no flag, the charm directory with its \<open>files\<close> directory), and the same
  unit with one command failing.
\<close>

definition env_demo :: env where
  "env_demo =
     \<lparr>charm_dir = ''/charm'',
      config = [(''cidr'', PStr ''10.1.0.0/16''), (''dns_domain'', PStr ''cluster.local'')],
      kv = [],
      unit_get = (\<lambda>k. if k = ''public-address'' then ''203.0.113.5'' else ''10.0.0.5''),
      proc = (\<lambda>argv. if argv = [''dpkg'', ''--print-architecture'']
                      then (0, ''amd64'' @ [CHR 0x0A]) else (0, []))\<rparr>"

definition rel_demo :: etcd where
  "rel_demo = \<lparr>rel_truthy = True, connection_string = ''https://10.0.0.9:2379''\<rparr>"

definition w_demo :: world where
  "w_demo = \<lparr>flags = {}, paths = [(''/charm'', Dir), (''/charm/files'', Dir)], trace = []\<rparr>"

definition failing :: "string list \<Rightarrow> int \<Rightarrow> env \<Rightarrow> env" where
  "failing argv rc e = e\<lparr>proc := (\<lambda>a. if a = argv then (rc, []) else proc e a)\<rparr>"




definition w_started :: world where
  "w_started =
     w_demo\<lparr>flags := {''k8s.certificate.authority available'', ''etcd.available'',
                         ''kube-scheduler.available''}\<rparr>"

definition env_i386 :: env where
  "env_i386 = env_demo\<lparr>proc := (\<lambda>argv. (0, ''i386'' @ [CHR 0x0A]))\<rparr>"

definition env_etcd_option :: env where
  "env_etcd_option =
     env_demo\<lparr>config := [(''cidr'', PStr ''10.1.0.0/16''), (''dns_domain'', PStr ''cluster.local''),
                          (''etcd_dir'', PStr ''/srv/etcd'')]\<rparr>"

section \<open>Facts about splitting\<close>

lemma split_chr_nonempty: "split_chr c s \<noteq> []"
  by (induction s) (auto split: list.splits)

lemma split_chr_absent: "c \<notin> set w \<Longrightarrow> split_chr c w = [w]"
  by (induction w) auto

lemma split_chr_first: "c \<notin> set w \<Longrightarrow> split_chr c (w @ c # rest) = w # split_chr c rest"
  by (induction w) auto

lemma index0_split_chr: "\<exists>ip. index0 (split_chr c s) = Inr ip"
  using split_chr_nonempty [of c s] by (cases "split_chr c s") (auto simp: index0_def)

lemma digits_no_sep: "CHR ''.'' \<notin> set ''0123456789'' \<and> CHR ''/'' \<notin> set ''0123456789''"
  by simp

lemma decimal_no_sep: "decimal s \<Longrightarrow> CHR ''.'' \<notin> set s \<and> CHR ''/'' \<notin> set s"
  unfolding decimal_def list_all_iff using digits_no_sep by blast

lemma split_cidr:
  assumes "CHR ''/'' \<notin> set a" "CHR ''/'' \<notin> set b" "CHR ''/'' \<notin> set c" "CHR ''/'' \<notin> set d"
  shows "index0 (split_chr CHR ''/'' (a @ ''.'' @ b @ ''.'' @ c @ ''.'' @ d @ ''/'' @ n))
         = Inr (a @ ''.'' @ b @ ''.'' @ c @ ''.'' @ d)"
proof -
  let ?ip = "a @ ''.'' @ b @ ''.'' @ c @ ''.'' @ d"
  have "CHR ''/'' \<notin> set ?ip" using assms by simp
  then have "split_chr CHR ''/'' (?ip @ CHR ''/'' # n) = ?ip # split_chr CHR ''/'' n"
    by (rule split_chr_first)
  then show ?thesis by (simp add: index0_def)
qed

lemma split_octets:
  assumes "CHR ''.'' \<notin> set a" "CHR ''.'' \<notin> set b" "CHR ''.'' \<notin> set c" "CHR ''.'' \<notin> set d"
  shows "split_chr CHR ''.'' (a @ ''.'' @ b @ ''.'' @ c @ ''.'' @ d) = [a, b, c, d]"
proof -
  have "split_chr CHR ''.'' (a @ CHR ''.'' # (b @ CHR ''.'' # (c @ CHR ''.'' # d)))
        = a # b # c # split_chr CHR ''.'' d"
    using assms by (simp add: split_chr_first)
  then show ?thesis using assms by (simp add: split_chr_absent)
qed

section \<open>Properties of the address derivation\<close>

text \<open>
  C10: for every input string the DNS address is the gateway address with the character
  \<open>0\<close> appended; neither derivation raises or validates anything.
\<close>

theorem dns_ip_is_sdn_ip_with_0:
  "\<exists>g. get_sdn_ip c = Inr g \<and> get_dns_ip c = Inr (g @ ''0'')"
proof -
  obtain ip where "index0 (split_chr CHR ''/'' c) = Inr ip"
    using index0_split_chr by blast
  then show ?thesis by (simp add: get_sdn_ip_def get_dns_ip_def)
qed

text \<open>
  C5: for a CIDR \<open>a.b.c.d/n\<close> of four decimal octets and a mask, the DNS address is
  \<open>a.b.c.10\<close> and the gateway address is \<open>a.b.c.1\<close>.
\<close>

theorem cidr_addresses:
  assumes "decimal a" "decimal b" "decimal c" "decimal d" "decimal n"
  shows "get_dns_ip (a @ ''.'' @ b @ ''.'' @ c @ ''.'' @ d @ ''/'' @ n)
           = Inr (a @ ''.'' @ b @ ''.'' @ c @ ''.10'')
       \<and> get_sdn_ip (a @ ''.'' @ b @ ''.'' @ c @ ''.'' @ d @ ''/'' @ n)
           = Inr (a @ ''.'' @ b @ ''.'' @ c @ ''.1'')"
proof -
  note ns = assms(1-4) [THEN decimal_no_sep]
  have ip: "index0 (split_chr CHR ''/'' (a @ ''.'' @ b @ ''.'' @ c @ ''.'' @ d @ ''/'' @ n))
            = Inr (a @ ''.'' @ b @ ''.'' @ c @ ''.'' @ d)"
    using ns by (intro split_cidr) simp_all
  have oct: "split_chr CHR ''.'' (a @ ''.'' @ b @ ''.'' @ c @ ''.'' @ d) = [a, b, c, d]"
    using ns by (intro split_octets) simp_all
  have ip': "index0 (split_chr CHR ''/''
                 (a @ CHR ''.'' # b @ CHR ''.'' # c @ CHR ''.'' # d @ CHR ''/'' # n))
             = Inr (a @ CHR ''.'' # b @ CHR ''.'' # c @ CHR ''.'' # d)"
    using ip by simp
  have oct': "split_chr CHR ''.'' (a @ CHR ''.'' # b @ CHR ''.'' # c @ CHR ''.'' # d) = [a, b, c, d]"
    using oct by simp
  show ?thesis by (simp add: get_dns_ip_def get_sdn_ip_def ip' oct')
qed

theorem cidr_addresses_witness:
  "get_dns_ip ''10.1.2.0/24'' = Inr ''10.1.2.10'' \<and> get_sdn_ip ''10.1.2.0/24'' = Inr ''10.1.2.1''"
  using cidr_addresses [of "''10''" "''1''" "''2''" "''0''" "''24''"]
  by (simp add: decimal_def)

section \<open>Facts about the library models and the runs\<close>

lemmas run_defs = bnd_def ret_def throw_def lift_def emit_def status_set_def
lemmas fmt_defs = format_py_def digit_val_def prepend_def
lemmas lex_defs = shlex_split_def whitespace_def quote_chr_def emit_token_def

lemma fmt_available: "format_py ''{0}.available'' [s] = Inr (s @ ''.available'')"
  by (simp add: fmt_defs)
lemma fmt_service: "format_py ''{0}.service'' [s] = Inr (s @ ''.service'')"
  by (simp add: fmt_defs)
lemma fmt_defaults: "format_py ''{0}.defaults'' [s] = Inr (s @ ''.defaults'')"
  by (simp add: fmt_defs)
lemma fmt_conf_dir: "format_py ''/etc/defaults/{0}'' [s] = Inr (''/etc/defaults/'' @ s)"
  by (simp add: fmt_defs)
lemma fmt_start: "format_py ''systemctl start {0}'' [s] = Inr (''systemctl start '' @ s)"
  by (simp add: fmt_defs)
lemma fmt_unsupported:
  "format_py ''Unsupported machine architecture: {0}'' [s] = Inr (''Unsupported machine architecture: '' @ s)"
  by (simp add: fmt_defs)
lemma fmt_unable: "format_py ''Unable to install {0}'' [s] = Inr (''Unable to install '' @ s)"
  by (simp add: fmt_defs)
lemma fmt_tar: "format_py ''tar -xvzf {0} -C {1}'' [a, f] = Inr (''tar -xvzf '' @ a @ '' -C '' @ f)"
  by (simp add: fmt_defs)
lemma fmt_install: "format_py ''install {0}/{1} {3}'' [f, s, d] = Inl IndexError"
  by (simp add: fmt_defs)

lemma split_cluster_info: "shlex_split ''kubectl cluster-info'' = Inr [''kubectl'', ''cluster-info'']"
  by (simp add: lex_defs)
lemma split_get_ns:
  "shlex_split ''kubectl get namespace kube-system'' = Inr [''kubectl'', ''get'', ''namespace'', ''kube-system'']"
  by (simp add: lex_defs)
lemma split_create_ns:
  "shlex_split ''kubectl create namespace kube-system''
   = Inr [''kubectl'', ''create'', ''namespace'', ''kube-system'']"
  by (simp add: lex_defs)
lemma split_start_apiserver:
  "shlex_split ''systemctl start kube-apiserver'' = Inr [''systemctl'', ''start'', ''kube-apiserver'']"
  by (simp add: lex_defs)
lemma split_start_controller:
  "shlex_split ''systemctl start kube-controller-manager''
   = Inr [''systemctl'', ''start'', ''kube-controller-manager'']"
  by (simp add: lex_defs)
lemma split_start_scheduler:
  "shlex_split ''systemctl start kube-scheduler'' = Inr [''systemctl'', ''start'', ''kube-scheduler'']"
  by (simp add: lex_defs)
lemma split_start_dns:
  "shlex_split ''systemctl start kube-dns'' = Inr [''systemctl'', ''start'', ''kube-dns'']"
  by (simp add: lex_defs)

lemma call_split:
  "shlex_split c = Inr argv \<Longrightarrow>
   call e c w = (Inr (fst (proc e argv)), w\<lparr>trace := trace w @ [Call argv (fst (proc e argv))]\<rparr>)"
  by (simp add: call_def run_defs)

lemma start_service_split:
  "shlex_split (''systemctl start '' @ s) = Inr argv \<Longrightarrow>
   start_service e s w =
     (Inr (fst (proc e argv) = 0),
      w\<lparr>trace := trace w @ [Print (''systemctl start '' @ s), Call argv (fst (proc e argv))]\<rparr>)"
  by (simp add: start_service_def fmt_start call_split run_defs)

lemma emitsI: "(\<And>w. \<exists>evs. trace (snd (m w)) = trace w @ evs \<and> list_all P evs) \<Longrightarrow> emits P m"
  by (simp add: emits_def)

lemma emits_bnd:
  assumes m: "emits P m" and f: "\<And>x. emits P (f x)"
  shows "emits P (bnd m f)"
proof (rule emitsI)
  fix w
  obtain r w1 where mw: "m w = (r, w1)" by (cases "m w")
  from m obtain evs1 where e1: "trace w1 = trace w @ evs1" "list_all P evs1"
    using mw by (auto simp: emits_def dest: spec [of _ w])
  show "\<exists>evs. trace (snd (bnd m f w)) = trace w @ evs \<and> list_all P evs"
  proof (cases r)
    case (Inl err)
    then show ?thesis using mw e1 by (simp add: bnd_def)
  next
    case (Inr x)
    from f [of x] obtain evs2 where e2: "trace (snd (f x w1)) = trace w1 @ evs2" "list_all P evs2"
      by (auto simp: emits_def dest: spec [of _ w1])
    have "trace (snd (bnd m f w)) = trace w @ (evs1 @ evs2)"
      using Inr mw e1 e2 by (simp add: bnd_def)
    moreover have "list_all P (evs1 @ evs2)" using e1 e2 by simp
    ultimately show ?thesis by blast
  qed
qed

lemma emits_ret: "emits P (ret x)"
  by (simp add: emits_def ret_def)
lemma emits_throw: "emits P (throw x)"
  by (simp add: emits_def throw_def)
lemma emits_lift: "emits P (lift r)"
  by (simp add: emits_def lift_def)
lemma emits_emit: "P ev \<Longrightarrow> emits P (emit ev)"
  by (simp add: emits_def emit_def)
lemma emits_ensure_dir: "P (MakeDirs d) \<Longrightarrow> emits P (ensure_dir d)"
  by (simp add: emits_def ensure_dir_def split: prod.splits sum.splits)
lemma emits_set_state: "P (SetState f) \<Longrightarrow> emits P (set_state f)"
  by (simp add: emits_def set_state_def)

lemma emits_effects: "emits P m \<Longrightarrow> list_all P (effects m w)"
  by (auto simp: emits_def effects_def dest: spec [of _ w])

lemma emits_trace: "emits P m \<Longrightarrow> trace (snd (m w)) = trace w @ effects m w"
  by (auto simp: emits_def effects_def dest: spec [of _ w])

lemma keeps_bnd:
  assumes m: "keeps_flags m" and f: "\<And>x. keeps_flags (f x)"
  shows "keeps_flags (bnd m f)"
  unfolding keeps_flags_def
proof
  fix w
  obtain r w1 where mw: "m w = (r, w1)" by (cases "m w")
  then have f1: "flags w1 = flags w" using m by (auto simp: keeps_flags_def dest: spec [of _ w])
  show "flags (snd (bnd m f w)) = flags w"
  proof (cases r)
    case (Inl err)
    then show ?thesis using mw f1 by (simp add: bnd_def)
  next
    case (Inr x)
    have "flags (snd (f x w1)) = flags w1" using f [of x] by (simp add: keeps_flags_def)
    then show ?thesis using Inr mw f1 by (simp add: bnd_def)
  qed
qed

lemma keeps_ret: "keeps_flags (ret x)"
  by (simp add: keeps_flags_def ret_def)
lemma keeps_throw: "keeps_flags (throw x)"
  by (simp add: keeps_flags_def throw_def)
lemma keeps_lift: "keeps_flags (lift r)"
  by (simp add: keeps_flags_def lift_def)
lemma keeps_emit: "keeps_flags (emit ev)"
  by (simp add: keeps_flags_def emit_def)
lemma keeps_ensure_dir: "keeps_flags (ensure_dir d)"
  by (simp add: keeps_flags_def ensure_dir_def split: prod.splits sum.splits)

lemma emits_check_output:
  "(\<And>rc. P (Call argv rc)) \<Longrightarrow> emits P (check_output e argv)"
  unfolding check_output_def
  by (intro emits_bnd emits_emit) (simp_all add: emits_throw emits_ret)

lemma emits_arch:
  assumes "\<And>rc. P (Call [''dpkg'', ''--print-architecture''] rc)" and "\<And>m. P (StatusSet ''blocked'' m)"
  shows "emits P (arch e)"
  unfolding arch_def status_set_def
  by (intro emits_bnd emits_check_output emits_lift assms)
     (auto intro!: emits_bnd emits_lift emits_emit emits_throw emits_ret assms)

lemma emits_render_service:
  assumes "\<And>s t. P (Render s t c)"
  shows "emits P (render_service n c)"
  unfolding render_service_def
  by (intro emits_bnd emits_lift emits_emit assms)

lemma emits_etcd_context:
  assumes "\<And>k c a. P (SaveClientCredentials k c a)"
  shows "emits P (etcd_context r c)"
  unfolding etcd_context_def
  by (auto simp: Let_def split: option.splits intro!: emits_bnd emits_emit emits_ret assms)

lemma emits_etcd_context_omitted:
  "r = None \<or> (\<exists>x. r = Some x \<and> \<not> rel_truthy x) \<Longrightarrow> emits P (etcd_context r c)"
  unfolding etcd_context_def
  by (auto simp: Let_def split: option.splits intro!: emits_ret)

lemma emits_build_context:
  assumes "\<And>rc. P (Call [''dpkg'', ''--print-architecture''] rc)" and "\<And>m. P (StatusSet ''blocked'' m)"
    and "\<And>d. P (MakeDirs d)" and "\<And>c. emits P (etcd_context r c)"
  shows "emits P (build_context e r)"
  unfolding build_context_def
  by (intro emits_bnd emits_lift emits_ensure_dir emits_arch emits_ret assms)

lemma emits_render_files:
  assumes "\<And>rc. P (Call [''dpkg'', ''--print-architecture''] rc)" and "\<And>m. P (StatusSet ''blocked'' m)"
    and "\<And>d. P (MakeDirs d)" and "\<And>c. emits P (etcd_context r c)"
    and "\<And>s t c. P (Render s t c)"
  shows "emits P (render_files e r)"
  unfolding render_files_def
  by (intro emits_bnd emits_build_context emits_render_service assms)

lemma keeps_check_output: "keeps_flags (check_output e argv)"
  unfolding check_output_def
  by (intro keeps_bnd keeps_emit) (simp_all add: keeps_throw keeps_ret)

lemma keeps_arch: "keeps_flags (arch e)"
  unfolding arch_def status_set_def
  by (intro keeps_bnd keeps_check_output keeps_lift)
     (auto intro!: keeps_bnd keeps_lift keeps_emit keeps_throw keeps_ret)

lemma keeps_render_service: "keeps_flags (render_service n c)"
  unfolding render_service_def
  by (intro keeps_bnd keeps_lift keeps_emit)

lemma keeps_etcd_context: "keeps_flags (etcd_context r c)"
  unfolding etcd_context_def
  by (auto simp: Let_def split: option.splits intro!: keeps_bnd keeps_emit keeps_ret)

lemma keeps_build_context: "keeps_flags (build_context e r)"
  unfolding build_context_def
  by (intro keeps_bnd keeps_lift keeps_ensure_dir keeps_arch keeps_ret keeps_etcd_context)

lemma keeps_render_files: "keeps_flags (render_files e r)"
  unfolding render_files_def
  by (intro keeps_bnd keeps_build_context keeps_render_service)

lemma effects_eq: "trace (snd (m w)) = trace w @ evs \<Longrightarrow> effects m w = evs"
  by (simp add: effects_def)

lemma start_loop_step:
  assumes "shlex_split (''systemctl start '' @ s) = Inr [''systemctl'', ''start'', s]"
  shows "start_loop e (s # ss) w =
         start_loop e ss (w\<lparr>flags := flags w \<union> start_flags e s, trace := trace w @ start_events e s\<rparr>)"
  by (simp add: start_service_split [OF assms] run_defs set_state_def fmt_available
        start_events_def start_flags_def)

lemma start_loop_three:
  "start_loop e [''kube-apiserver'', ''kube-controller-manager'', ''kube-scheduler''] w =
     (Inr (), w\<lparr>flags := flags w \<union> start_flags e ''kube-apiserver''
                      \<union> start_flags e ''kube-controller-manager'' \<union> start_flags e ''kube-scheduler'',
                trace := trace w @ start_events e ''kube-apiserver''
                      @ start_events e ''kube-controller-manager'' @ start_events e ''kube-scheduler''\<rparr>)"
proof -
  have a: "shlex_split (''systemctl start '' @ ''kube-apiserver'') = Inr [''systemctl'', ''start'', ''kube-apiserver'']"
    by (simp add: lex_defs)
  have c: "shlex_split (''systemctl start '' @ ''kube-controller-manager'')
           = Inr [''systemctl'', ''start'', ''kube-controller-manager'']"
    by (simp add: lex_defs)
  have s: "shlex_split (''systemctl start '' @ ''kube-scheduler'') = Inr [''systemctl'', ''start'', ''kube-scheduler'']"
    by (simp add: lex_defs)
  show ?thesis
    unfolding start_loop_step [OF a] start_loop_step [OF c] start_loop_step [OF s]
    by (simp add: ret_def)
qed

lemma render_files_no_start:
  "emits (\<lambda>ev. (\<forall>f. ev \<noteq> SetState f) \<and> (\<forall>s rc. ev \<noteq> Call [''systemctl'', ''start'', s] rc))
     (render_files e r)"
  by (rule emits_render_files) (simp_all add: emits_etcd_context)

lemma start_events_set:
  "set (start_events e s) =
     {Print (''systemctl start '' @ s),
      Call [''systemctl'', ''start'', s] (fst (proc e [''systemctl'', ''start'', s]))}
     \<union> (if fst (proc e [''systemctl'', ''start'', s]) = 0 then {SetState (s @ ''.available'')} else {})"
  by (simp add: start_events_def)

lemma path_join_plain:
  "b \<noteq> [] \<Longrightarrow> hd b \<noteq> CHR ''/'' \<Longrightarrow> a \<noteq> [] \<Longrightarrow> last a \<noteq> CHR ''/'' \<Longrightarrow> path_join a b = a @ ''/'' @ b"
  by (simp add: path_join_def)

lemma supported_decode:
  "a \<in> set [''amd64'', ''arm'', ''arm64'', ''ppc64le''] \<Longrightarrow> decode_utf8 a = Inr a"
  by (auto simp: decode_utf8_def)

lemma arch_supported:
  assumes "proc e [''dpkg'', ''--print-architecture''] = (0, out)"
    and "rstrip out \<in> set [''amd64'', ''arm'', ''arm64'', ''ppc64le'']"
  shows "arch e w = (Inr (rstrip out), w\<lparr>trace := trace w @ [Call [''dpkg'', ''--print-architecture''] 0]\<rparr>)"
  using assms(2) supported_decode [OF assms(2)]
  by (auto simp: arch_def check_output_def run_defs assms(1))

lemma arch_unsupported:
  assumes "proc e [''dpkg'', ''--print-architecture''] = (0, out)"
    and "valid_utf8 (map of_char (rstrip out))"
    and "rstrip out \<notin> set [''amd64'', ''arm'', ''arm64'', ''ppc64le'']"
  shows "arch e w =
         (Inl (Exception (''Unsupported machine architecture: '' @ rstrip out)),
          w\<lparr>trace := trace w @ [Call [''dpkg'', ''--print-architecture''] 0,
                StatusSet ''blocked'' (''Unsupported machine architecture: '' @ rstrip out)]\<rparr>)"
  using assms(3) by (simp add: arch_def check_output_def run_defs assms(1,2) decode_utf8_def fmt_unsupported)

lemma render_service_known:
  assumes "n \<in> set [''kube-apiserver'', ''kube-controller-manager'', ''kube-scheduler'', ''kube-dns'']"
  shows "render_service n c w = (Inr (), w\<lparr>trace := trace w @ service_renders c n\<rparr>)"
  using assms
  by (auto simp: render_service_def run_defs fmt_service fmt_defaults fmt_conf_dir path_join_def
        service_renders_def)

lemma arch_result_fixed: "fst (arch e w) = fst (arch e w')"
  by (simp add: arch_def check_output_def run_defs split: sum.splits prod.splits)

lemma work_dirs_differ:
  "path_join c ''files/kubernetes'' \<noteq> path_join c ''files/manifests''"
  by (simp add: path_join_def)

lemma etcd_context_supplied:
  "rel_truthy x \<Longrightarrow>
   etcd_context (Some x) c w =
     (Inr (dict_update c (etcd_entries x)),
      w\<lparr>trace := trace w @ [SaveClientCredentials ''/etc/ssl/etcd/client-key.pem''
                ''/etc/ssl/etcd/client-cert.pem'' ''/etc/ssl/etcd/client-ca.pem'']\<rparr>)"
  by (simp add: etcd_context_def run_defs path_join_def etcd_entries_def Let_def)

lemma etcd_context_omitted:
  "r = None \<or> (\<exists>x. r = Some x \<and> \<not> rel_truthy x) \<Longrightarrow> etcd_context r c w = (Inr c, w)"
  by (auto simp: etcd_context_def run_defs)

lemma ensure_dir_parts:
  "\<exists>r P evs. \<forall>t. ensure_dir d (w\<lparr>trace := t\<rparr>) = (r, w\<lparr>paths := P, trace := t @ evs\<rparr>)"
proof (cases "exists (paths w) d")
  case True
  then have "ensure_dir d (w\<lparr>trace := t\<rparr>) = (Inr (), w\<lparr>paths := paths w, trace := t @ []\<rparr>)" for t
    by (simp add: ensure_dir_def)
  then show ?thesis by blast
next
  case False
  obtain r fs where m: "makedirs d (paths w) = (r, fs)" by (cases "makedirs d (paths w)")
  show ?thesis
  proof (cases r)
    case (Inl err)
    then have "ensure_dir d (w\<lparr>trace := t\<rparr>) = (Inl err, w\<lparr>paths := fs, trace := t @ []\<rparr>)" for t
      using False m by (simp add: ensure_dir_def)
    then show ?thesis by blast
  next
    case (Inr u)
    then have "ensure_dir d (w\<lparr>trace := t\<rparr>) = (Inr (), w\<lparr>paths := fs, trace := t @ [MakeDirs d]\<rparr>)" for t
      using False m by (simp add: ensure_dir_def)
    then show ?thesis by blast
  qed
qed

lemma parts_at:
  assumes "\<forall>t. m (w\<lparr>trace := t\<rparr>) = (r, w\<lparr>paths := P, trace := t @ evs\<rparr>)"
  shows "m (w\<lparr>trace := t\<rparr>) =
           (fst (m w), w\<lparr>paths := paths (snd (m w)), trace := t @ effects m w\<rparr>)"
proof -
  have "m (w\<lparr>trace := trace w\<rparr>) = (r, w\<lparr>paths := P, trace := trace w @ evs\<rparr>)"
    using assms by blast
  then have mw: "m w = (r, w\<lparr>paths := P, trace := trace w @ evs\<rparr>)" by simp
  have "effects m w = evs" by (rule effects_eq) (simp add: mw)
  then show ?thesis using assms by (simp add: mw)
qed

lemma ensure_dir_at:
  "ensure_dir d (w\<lparr>trace := t\<rparr>) =
     (fst (ensure_dir d w),
      w\<lparr>paths := paths (snd (ensure_dir d w)), trace := t @ effects (ensure_dir d) w\<rparr>)"
  using ensure_dir_parts [of d w] parts_at [of "ensure_dir d" w] by blast

lemma work_dirs_parts:
  "\<exists>r P evs. \<forall>t. work_dirs e (w\<lparr>trace := t\<rparr>) = (r, w\<lparr>paths := P, trace := t @ evs\<rparr>)"
proof -
  let ?k = "path_join (charm_dir e) ''files/kubernetes''"
  let ?m = "path_join (charm_dir e) ''files/manifests''"
  obtain r1 P1 ev1 where k: "\<And>t. ensure_dir ?k (w\<lparr>trace := t\<rparr>) = (r1, w\<lparr>paths := P1, trace := t @ ev1\<rparr>)"
    using ensure_dir_parts [of ?k w] by blast
  obtain r2 P2 ev2 where m: "\<And>t. ensure_dir ?m (w\<lparr>paths := P1, trace := t\<rparr>)
        = (r2, w\<lparr>paths := P2, trace := t @ ev2\<rparr>)"
    using ensure_dir_parts [of ?m "w\<lparr>paths := P1\<rparr>"] by auto
  show ?thesis
  proof (cases r1)
    case (Inl err)
    then have "work_dirs e (w\<lparr>trace := t\<rparr>) = (Inl err, w\<lparr>paths := P1, trace := t @ ev1\<rparr>)" for t
      by (simp add: work_dirs_def bnd_def k)
    then show ?thesis by blast
  next
    case (Inr u)
    then have "work_dirs e (w\<lparr>trace := t\<rparr>) = (r2, w\<lparr>paths := P2, trace := t @ (ev1 @ ev2)\<rparr>)" for t
      by (simp add: work_dirs_def bnd_def k m)
    then show ?thesis by blast
  qed
qed

lemma work_dirs_at:
  "work_dirs e (w\<lparr>trace := t\<rparr>) =
     (fst (work_dirs e w),
      w\<lparr>paths := paths (snd (work_dirs e w)), trace := t @ effects (work_dirs e) w\<rparr>)"
  using work_dirs_parts [of e w] parts_at [of "work_dirs e" w] by blast

lemma emits_work_dirs: "(\<And>d. P (MakeDirs d)) \<Longrightarrow> emits P (work_dirs e)"
  unfolding work_dirs_def by (intro emits_bnd emits_ensure_dir)

lemma build_context_steps:
  assumes sdn: "gather_sdn_data e = Inr sdn"
    and ec: "etcd_context r (dict_update (dict_update [] sdn) (config e)) w
             = (Inr c1, w\<lparr>trace := trace w @ early\<rparr>)"
  shows "build_context e r w =
         bnd (work_dirs e) (\<lambda>_. bnd (arch e) (\<lambda>a. ret (dict_update c1 (final_entries e a))))
           (w\<lparr>trace := trace w @ early\<rparr>)"
  by (simp add: build_context_def work_dirs_def bnd_def lift_def sdn ec final_entries_def
        split: prod.splits sum.splits)

lemma build_context_ok:
  assumes sdn: "gather_sdn_data e = Inr sdn"
    and dpkg: "proc e [''dpkg'', ''--print-architecture''] = (0, out)"
    and sup: "rstrip out \<in> set [''amd64'', ''arm'', ''arm64'', ''ppc64le'']"
    and ec: "etcd_context r (dict_update (dict_update [] sdn) (config e)) w
             = (Inr c1, w\<lparr>trace := trace w @ early\<rparr>)"
    and wd: "fst (work_dirs e w) = Inr ()"
  shows "build_context e r w =
         (Inr (dict_update c1 (final_entries e (rstrip out))),
          w\<lparr>paths := paths (snd (work_dirs e w)),
            trace := trace w @ early @ effects (work_dirs e) w
                     @ [Call [''dpkg'', ''--print-architecture''] 0]\<rparr>)"
  unfolding build_context_steps [OF sdn ec]
  by (simp add: bnd_def ret_def work_dirs_at wd arch_supported [OF dpkg sup])

lemma render_files_ok:
  assumes bc: "build_context e r w = (Inr ctx, w')"
  shows "render_files e r w =
         (Inr (), w'\<lparr>trace := trace w' @ service_renders ctx ''kube-apiserver''
             @ service_renders ctx ''kube-controller-manager''
             @ service_renders ctx ''kube-scheduler'' @ service_renders ctx ''kube-dns''\<rparr>)"
  by (simp add: render_files_def bnd_def bc render_service_known)


















section \<open>Facts about the demo unit\<close>

lemma gather_failing: "gather_sdn_data (failing argv rc e) = gather_sdn_data e"
proof -
  have c: "config (failing argv rc e) = config e" and k: "kv (failing argv rc e) = kv e"
    by (simp_all add: failing_def)
  show ?thesis unfolding gather_sdn_data_def c k by (rule refl)
qed

lemma gather_demo:
  "gather_sdn_data env_demo =
     Inr [(''pillar'', PDict [(''dns_server'', PStr ''10.1.0.10''), (''dns_replicas'', PInt 1),
                              (''dns_domain'', PStr ''cluster.local'')])]"
  by (simp add: gather_sdn_data_def env_demo_def dict_get_def get_dns_ip_of_def
        get_dns_ip_def index0_def)

lemma demo_dpkg: "proc env_demo [''dpkg'', ''--print-architecture''] = (0, ''amd64'' @ [CHR 0x0A])"
  by (simp add: env_demo_def)

lemma demo_supported: "rstrip (''amd64'' @ [CHR 0x0A]) \<in> set [''amd64'', ''arm'', ''arm64'', ''ppc64le'']"
  by (simp add: rstrip_def space_byte_def)

lemma demo_parent:
  "parent_of ''/charm/files/kubernetes'' = (''/charm/files'', ''kubernetes'')"
  "parent_of ''/charm/files/manifests'' = (''/charm/files'', ''manifests'')"
  by (simp_all add: parent_of_def psplit_def Let_def slashes_def)

lemma demo_work_dirs:
  assumes "charm_dir e = ''/charm''" and "paths w = [(''/charm'', Dir), (''/charm/files'', Dir)]"
  shows "work_dirs e w =
           (Inr (),
            w\<lparr>paths := [(''/charm'', Dir), (''/charm/files'', Dir),
                         (''/charm/files/kubernetes'', Dir), (''/charm/files/manifests'', Dir)],
              trace := trace w @ [MakeDirs ''/charm/files/kubernetes'',
                                  MakeDirs ''/charm/files/manifests'']\<rparr>)"
  by (simp add: work_dirs_def bnd_def ensure_dir_def assms path_join_def exists_def kind_of_def
        slashes_def makedirs.simps demo_parent mkdir_def)

lemma demo_work_dirs_effects:
  assumes "charm_dir e = ''/charm''" and "paths w = [(''/charm'', Dir), (''/charm/files'', Dir)]"
  shows "fst (work_dirs e w) = Inr ()"
    and "paths (snd (work_dirs e w)) =
           [(''/charm'', Dir), (''/charm/files'', Dir),
            (''/charm/files/kubernetes'', Dir), (''/charm/files/manifests'', Dir)]"
    and "effects (work_dirs e) w = [MakeDirs ''/charm/files/kubernetes'', MakeDirs ''/charm/files/manifests'']"
proof -
  note wd = demo_work_dirs [OF assms]
  show "fst (work_dirs e w) = Inr ()" by (simp add: wd)
  show "paths (snd (work_dirs e w)) =
           [(''/charm'', Dir), (''/charm/files'', Dir),
            (''/charm/files/kubernetes'', Dir), (''/charm/files/manifests'', Dir)]"
    by (simp add: wd)
  show "effects (work_dirs e) w = [MakeDirs ''/charm/files/kubernetes'', MakeDirs ''/charm/files/manifests'']"
    by (rule effects_eq) (simp add: wd)
qed

lemma start_master_after_render:
  assumes "render_files e (Some etcd)
             (w\<lparr>trace := trace w @ [StatusSet ''maintenance'' ''Rendering the Kubernetes master systemd files.'']\<rparr>)
           = (Inr (), w2)"
  shows "start_master e etcd w =
           (Inr (),
            w2\<lparr>flags := flags w2 \<union> start_flags e ''kube-apiserver''
                   \<union> start_flags e ''kube-controller-manager'' \<union> start_flags e ''kube-scheduler'',
               trace := trace w2 @ [StatusSet ''maintenance'' ''Starting the Kubernetes master services.'']
                   @ start_events e ''kube-apiserver'' @ start_events e ''kube-controller-manager''
                   @ start_events e ''kube-scheduler''\<rparr>)"
proof -
  let ?w3 = "w2\<lparr>trace := trace w2 @ [StatusSet ''maintenance'' ''Starting the Kubernetes master services.'']\<rparr>"
  have sm: "start_master e etcd w
            = start_loop e [''kube-apiserver'', ''kube-controller-manager'', ''kube-scheduler''] ?w3"
    using assms by (simp add: start_master_def run_defs)
  show ?thesis unfolding sm start_loop_three by simp
qed

lemma demo_render_files:
  assumes cd: "charm_dir e = ''/charm''" and p: "paths w = [(''/charm'', Dir), (''/charm/files'', Dir)]"
    and sdn: "gather_sdn_data e = Inr sdn"
    and dpkg: "proc e [''dpkg'', ''--print-architecture''] = (0, ''amd64'' @ [CHR 0x0A])"
    and ec: "etcd_context r (dict_update (dict_update [] sdn) (config e)) w
             = (Inr c1, w\<lparr>trace := trace w @ early\<rparr>)"
  shows "\<exists>ctx. render_files e r w =
           (Inr (),
            w\<lparr>paths := [(''/charm'', Dir), (''/charm/files'', Dir),
                         (''/charm/files/kubernetes'', Dir), (''/charm/files/manifests'', Dir)],
              trace := trace w @ early
                @ [MakeDirs ''/charm/files/kubernetes'', MakeDirs ''/charm/files/manifests'',
                   Call [''dpkg'', ''--print-architecture''] 0]
                @ service_renders ctx ''kube-apiserver'' @ service_renders ctx ''kube-controller-manager''
                @ service_renders ctx ''kube-scheduler'' @ service_renders ctx ''kube-dns''\<rparr>)"
proof -
  note wd = demo_work_dirs_effects [OF cd p]
  note bc = build_context_ok [OF sdn dpkg demo_supported ec wd(1)]
  show ?thesis
    by (rule exI) (simp add: render_files_ok [OF bc] wd)
qed

section \<open>The start_master handler\<close>

text \<open>
  C1, as stated, fails where it says that a failed start leaves the flag unset: the
  handler never removes a flag. It runs again whenever its gate holds; with
  \<open>kube-scheduler.available\<close> set by an earlier run and the scheduler start now exiting
  1, the handler returns normally and the flag is still set.
\<close>

theorem start_master_keeps_set_flag:
  "start_master_gate w_started
   \<and> fst (start_master (failing [''systemctl'', ''start'', ''kube-scheduler''] 1 env_demo)
            rel_demo w_started) = Inr ()
   \<and> Call [''systemctl'', ''start'', ''kube-scheduler''] 1
       \<in> set (effects (start_master (failing [''systemctl'', ''start'', ''kube-scheduler''] 1 env_demo)
                         rel_demo) w_started)
   \<and> ''kube-scheduler.available''
       \<in> flags (snd (start_master (failing [''systemctl'', ''start'', ''kube-scheduler''] 1 env_demo)
                       rel_demo w_started))"
proof -
  let ?e = "failing [''systemctl'', ''start'', ''kube-scheduler''] 1 env_demo"
  let ?w1 = "w_started\<lparr>trace := trace w_started
               @ [StatusSet ''maintenance'' ''Rendering the Kubernetes master systemd files.'']\<rparr>"
  have cd: "charm_dir ?e = ''/charm''" by (simp add: failing_def env_demo_def)
  have p: "paths ?w1 = [(''/charm'', Dir), (''/charm/files'', Dir)]"
    by (simp add: w_started_def w_demo_def)
  have sdn: "gather_sdn_data ?e = Inr [(''pillar'', PDict [(''dns_server'', PStr ''10.1.0.10''),
               (''dns_replicas'', PInt 1), (''dns_domain'', PStr ''cluster.local'')])]"
    by (simp add: gather_failing gather_demo)
  have dpkg: "proc ?e [''dpkg'', ''--print-architecture''] = (0, ''amd64'' @ [CHR 0x0A])"
    by (simp add: failing_def env_demo_def)
  have ec: "etcd_context (Some rel_demo) c ?w1 =
              (Inr (dict_update c (etcd_entries rel_demo)),
               ?w1\<lparr>trace := trace ?w1 @ [SaveClientCredentials ''/etc/ssl/etcd/client-key.pem''
                  ''/etc/ssl/etcd/client-cert.pem'' ''/etc/ssl/etcd/client-ca.pem'']\<rparr>)" for c
    by (rule etcd_context_supplied) (simp add: rel_demo_def)
  obtain ctx where rf: "render_files ?e (Some rel_demo) ?w1 =
           (Inr (),
            ?w1\<lparr>paths := [(''/charm'', Dir), (''/charm/files'', Dir),
                         (''/charm/files/kubernetes'', Dir), (''/charm/files/manifests'', Dir)],
              trace := trace ?w1 @ [SaveClientCredentials ''/etc/ssl/etcd/client-key.pem''
                  ''/etc/ssl/etcd/client-cert.pem'' ''/etc/ssl/etcd/client-ca.pem'']
                @ [MakeDirs ''/charm/files/kubernetes'', MakeDirs ''/charm/files/manifests'',
                   Call [''dpkg'', ''--print-architecture''] 0]
                @ service_renders ctx ''kube-apiserver'' @ service_renders ctx ''kube-controller-manager''
                @ service_renders ctx ''kube-scheduler'' @ service_renders ctx ''kube-dns''\<rparr>)"
    using demo_render_files [OF cd p sdn dpkg ec] by blast
  note sm = start_master_after_render [OF rf]
  have rc: "fst (proc ?e [''systemctl'', ''start'', ''kube-scheduler'']) = 1"
    by (simp add: failing_def)
  have tr: "trace w_started = []" by (simp add: w_started_def w_demo_def)
  have ef: "effects (start_master ?e rel_demo) w_started = trace (snd (start_master ?e rel_demo w_started))"
    by (simp add: effects_def tr)
  have gate: "start_master_gate w_started"
    by (simp add: start_master_gate_def w_started_def)
  have fl: "''kube-scheduler.available'' \<in> flags w_started" by (simp add: w_started_def)
  show ?thesis
    using gate fl by (simp add: ef sm start_events_def rc)
qed

text \<open>
  C1, amended: in \<open>start_master\<close>, for each of kube-apiserver, kube-controller-manager
  and kube-scheduler, the handler sets the flag \<open><service>.available\<close> if and only if
  the start command of that service exits with 0. A failed start sets nothing, leaves
  the flag as it was before the run (unset if it was unset, set if an earlier run had
  set it) and raises nothing: the handler fails only where \<open>render_files\<close> fails, and
  every service is started whenever rendering succeeded, whatever the earlier starts
  returned.
\<close>

theorem start_master_flags:
  fixes e :: env and etcd :: etcd and w :: world
  defines "w1 \<equiv> w\<lparr>trace := trace w @ [StatusSet ''maintenance'' ''Rendering the Kubernetes master systemd files.'']\<rparr>"
  shows "(fst (start_master e etcd w) = Inr ()) = (fst (render_files e (Some etcd) w1) = Inr ())
       \<and> (\<forall>s \<in> set [''kube-apiserver'', ''kube-controller-manager'', ''kube-scheduler''].
            (Call [''systemctl'', ''start'', s] 0 \<in> set (effects (start_master e etcd) w))
              = (fst (render_files e (Some etcd) w1) = Inr () \<and> fst (proc e [''systemctl'', ''start'', s]) = 0)
          \<and> (SetState (s @ ''.available'') \<in> set (effects (start_master e etcd) w))
              = (Call [''systemctl'', ''start'', s] 0 \<in> set (effects (start_master e etcd) w))
          \<and> (s @ ''.available'' \<in> flags (snd (start_master e etcd w)))
              = (s @ ''.available'' \<in> flags w
                 \<or> Call [''systemctl'', ''start'', s] 0 \<in> set (effects (start_master e etcd) w)))"
proof -
  let ?P = "\<lambda>ev. (\<forall>f. ev \<noteq> SetState f) \<and> (\<forall>s rc. ev \<noteq> Call [''systemctl'', ''start'', s] rc)"
  obtain r w2 where rf: "render_files e (Some etcd) w1 = (r, w2)"
    by (cases "render_files e (Some etcd) w1")
  define evs where "evs = effects (render_files e (Some etcd)) w1"
  have tr: "trace w2 = trace w1 @ evs"
    using emits_trace [OF render_files_no_start, of e "Some etcd" w1] rf by (simp add: evs_def)
  have P: "list_all ?P evs"
    unfolding evs_def by (rule emits_effects [OF render_files_no_start])
  have fl: "flags w2 = flags w"
    using keeps_render_files [of e "Some etcd"] rf by (auto simp: keeps_flags_def w1_def dest: spec [of _ w1])
  have noset: "SetState f \<notin> set evs" for f
    using P by (auto simp: list_all_iff)
  have nocall: "Call [''systemctl'', ''start'', s] rc \<notin> set evs" for s rc
    using P by (auto simp: list_all_iff)
  show ?thesis
  proof (cases r)
    case (Inl x)
    have sm: "start_master e etcd w = (Inl x, w2)"
      using rf Inl by (simp add: start_master_def run_defs w1_def)
    have ef: "effects (start_master e etcd) w
              = StatusSet ''maintenance'' ''Rendering the Kubernetes master systemd files.'' # evs"
      by (rule effects_eq) (simp add: sm tr w1_def)
    show ?thesis
      using noset nocall by (simp add: sm ef rf Inl fl)
  next
    case (Inr u)
    let ?w3 = "w2\<lparr>trace := trace w2 @ [StatusSet ''maintenance'' ''Starting the Kubernetes master services.'']\<rparr>"
    have sm: "start_master e etcd w
              = start_loop e [''kube-apiserver'', ''kube-controller-manager'', ''kube-scheduler''] ?w3"
      using rf Inr by (simp add: start_master_def run_defs w1_def)
    have sm2: "start_master e etcd w =
                 (Inr (), ?w3\<lparr>flags := flags ?w3 \<union> start_flags e ''kube-apiserver''
                      \<union> start_flags e ''kube-controller-manager'' \<union> start_flags e ''kube-scheduler'',
                    trace := trace ?w3 @ start_events e ''kube-apiserver''
                      @ start_events e ''kube-controller-manager'' @ start_events e ''kube-scheduler''\<rparr>)"
      unfolding sm by (rule start_loop_three)
    have ef: "effects (start_master e etcd) w
              = StatusSet ''maintenance'' ''Rendering the Kubernetes master systemd files.'' # evs
                @ StatusSet ''maintenance'' ''Starting the Kubernetes master services.''
                # start_events e ''kube-apiserver'' @ start_events e ''kube-controller-manager''
                @ start_events e ''kube-scheduler''"
      by (rule effects_eq) (simp add: sm2 tr w1_def)
    have res: "fst (start_master e etcd w) = Inr ()"
      by (simp add: sm2)
    have flg: "flags (snd (start_master e etcd w))
               = flags w \<union> start_flags e ''kube-apiserver''
                 \<union> start_flags e ''kube-controller-manager'' \<union> start_flags e ''kube-scheduler''"
      by (simp add: sm2 fl)
    show ?thesis
      using noset nocall
      by (simp add: res ef flg rf Inr start_events_set start_flags_def)
  qed
qed

theorem start_master_flags_witness:
  "fst (start_master (failing [''systemctl'', ''start'', ''kube-scheduler''] 1 env_demo) rel_demo w_demo)
     = Inr ()
   \<and> ''kube-apiserver.available''
       \<in> flags (snd (start_master (failing [''systemctl'', ''start'', ''kube-scheduler''] 1 env_demo)
                       rel_demo w_demo))
   \<and> ''kube-scheduler.available''
       \<notin> flags (snd (start_master (failing [''systemctl'', ''start'', ''kube-scheduler''] 1 env_demo)
                       rel_demo w_demo))
   \<and> ''kube-scheduler.available''
       \<in> flags (snd (start_master (failing [''systemctl'', ''start'', ''kube-scheduler''] 1 env_demo)
                       rel_demo w_started))"
proof -
  let ?e = "failing [''systemctl'', ''start'', ''kube-scheduler''] 1 env_demo"
  let ?w1 = "w_demo\<lparr>trace := trace w_demo
               @ [StatusSet ''maintenance'' ''Rendering the Kubernetes master systemd files.'']\<rparr>"
  have cd: "charm_dir ?e = ''/charm''" by (simp add: failing_def env_demo_def)
  have p: "paths ?w1 = [(''/charm'', Dir), (''/charm/files'', Dir)]" by (simp add: w_demo_def)
  have sdn: "gather_sdn_data ?e = Inr [(''pillar'', PDict [(''dns_server'', PStr ''10.1.0.10''),
               (''dns_replicas'', PInt 1), (''dns_domain'', PStr ''cluster.local'')])]"
    by (simp add: gather_failing gather_demo)
  have dpkg: "proc ?e [''dpkg'', ''--print-architecture''] = (0, ''amd64'' @ [CHR 0x0A])"
    by (simp add: failing_def env_demo_def)
  have ec: "etcd_context (Some rel_demo) c ?w1 =
              (Inr (dict_update c (etcd_entries rel_demo)),
               ?w1\<lparr>trace := trace ?w1 @ [SaveClientCredentials ''/etc/ssl/etcd/client-key.pem''
                  ''/etc/ssl/etcd/client-cert.pem'' ''/etc/ssl/etcd/client-ca.pem'']\<rparr>)" for c
    by (rule etcd_context_supplied) (simp add: rel_demo_def)
  have ok: "fst (render_files ?e (Some rel_demo) ?w1) = Inr ()"
    using demo_render_files [OF cd p sdn dpkg ec] by auto
  have rc: "fst (proc ?e [''systemctl'', ''start'', ''kube-apiserver'']) = 0"
           "fst (proc ?e [''systemctl'', ''start'', ''kube-scheduler'']) \<noteq> 0"
    by (simp_all add: failing_def env_demo_def)
  have fl: "flags w_demo = {}" by (simp add: w_demo_def)
  have before: "''kube-scheduler.available'' \<in> flags w_started" by (simp add: w_started_def)
  have fresh: "fst (start_master ?e rel_demo w_demo) = Inr ()
      \<and> ''kube-apiserver.available'' \<in> flags (snd (start_master ?e rel_demo w_demo))
      \<and> ''kube-scheduler.available'' \<notin> flags (snd (start_master ?e rel_demo w_demo))"
    using start_master_flags [of ?e rel_demo w_demo] ok rc fl by simp
  have kept: "''kube-scheduler.available'' \<in> flags (snd (start_master ?e rel_demo w_started))"
    using start_master_flags [of ?e rel_demo w_started] before by simp
  show ?thesis using fresh kept by simp
qed

section \<open>Facts about install and the cluster probe\<close>

lemma launch_dns_probe_fails:
  assumes "fst (proc e [''kubectl'', ''cluster-info'']) \<noteq> 0"
  shows "launch_dns e w =
         (Inr (), w\<lparr>flags := flags w - {''kubedns.available''},
                    trace := trace w @
                      [StatusSet ''maintenance'' ''Rendering the Kubernetes DNS systemd files.'',
                       Call [''kubectl'', ''cluster-info''] (fst (proc e [''kubectl'', ''cluster-info''])),
                       Log ''kubectl command failed, waiting for apiserver to start.'',
                       RemoveState ''kubedns.available'']\<rparr>)"
  using assms
  by (simp add: launch_dns_def call_split [OF split_cluster_info] run_defs remove_state_def)

lemma install_loop_raises:
  "install_loop e files_dir dest_dir (service # services) w = (Inl IndexError, w)"
  by (simp add: fmt_install run_defs)

lemma bnd_lift_Inr: "bnd (lift (Inr x)) f = f x"
  by (simp add: run_defs)

lemma bnd_call:
  "shlex_split c = Inr argv \<Longrightarrow>
   bnd (call e c) f w = f (fst (proc e argv)) (w\<lparr>trace := trace w @ [Call argv (fst (proc e argv))]\<rparr>)"
  by (simp add: bnd_def call_split)

lemma install_after_tar:
  assumes "shlex_split (''tar -xvzf '' @ path_join (path_join (charm_dir e) ''files'') ''kubernetes.tar.gz''
             @ '' -C '' @ path_join (charm_dir e) ''files'') = Inr argv"
  shows "install e w =
         install_loop e (path_join (charm_dir e) ''files'') ''/usr/local/bin/''
           [''kube-apiserver'', ''kube-controller-manager'', ''kube-scheduler'', ''kube-dns'']
           (w\<lparr>trace := trace w @ [Call argv (fst (proc e argv))]\<rparr>)"
  unfolding install_def Let_def fmt_tar bnd_lift_Inr
  by (rule bnd_call [OF assms])

lemma demo_tar_split:
  "shlex_split (''tar -xvzf '' @ path_join (path_join ''/charm'' ''files'') ''kubernetes.tar.gz''
             @ '' -C '' @ path_join ''/charm'' ''files'')
   = Inr [''tar'', ''-xvzf'', ''/charm/files/kubernetes.tar.gz'', ''-C'', ''/charm/files'']"
  by (simp add: path_join_def lex_defs)

section \<open>The install handler\<close>

text \<open>
  C3: installation copies each of the four binaries and fails with an error naming the
  binary whose copy did not succeed, and raises nothing when every copy succeeds. The
  code does not get that far: the template of the copy command refers to argument 3 of
  three, so formatting it raises IndexError in the first round of the loop, before any
  copy command is started. The theorem runs \<open>install\<close> on a unit where every command
  exits 0.
\<close>

theorem install_raises_index_error:
  "install env_demo w_demo =
     (Inl IndexError,
      \<lparr>flags = {}, paths = [(''/charm'', Dir), (''/charm/files'', Dir)],
       trace = [Call [''tar'', ''-xvzf'', ''/charm/files/kubernetes.tar.gz'', ''-C'', ''/charm/files''] 0]\<rparr>)"
proof -
  have cd: "charm_dir env_demo = ''/charm''" by (simp add: env_demo_def)
  have sp: "shlex_split (''tar -xvzf '' @ path_join (path_join (charm_dir env_demo) ''files'') ''kubernetes.tar.gz''
             @ '' -C '' @ path_join (charm_dir env_demo) ''files'')
            = Inr [''tar'', ''-xvzf'', ''/charm/files/kubernetes.tar.gz'', ''-C'', ''/charm/files'']"
    unfolding cd by (rule demo_tar_split)
  show ?thesis
    unfolding install_after_tar [OF sp] install_loop_raises
    by (simp add: w_demo_def env_demo_def)
qed

text \<open>
  C9: the exit code of the archive extraction is discarded. Whatever \<open>tar\<close> returns
  (so also when it fails), \<open>install\<close> raises nothing for it and goes on with the loop
  over the four binaries, in the state that only records the extraction.
\<close>

theorem install_ignores_tar_exit:
  assumes "shlex_split (''tar -xvzf '' @ path_join (path_join (charm_dir e) ''files'') ''kubernetes.tar.gz''
             @ '' -C '' @ path_join (charm_dir e) ''files'') = Inr argv"
    and "fst (proc e argv) = rc"
  shows "install e w =
         install_loop e (path_join (charm_dir e) ''files'') ''/usr/local/bin/''
           [''kube-apiserver'', ''kube-controller-manager'', ''kube-scheduler'', ''kube-dns'']
           (w\<lparr>trace := trace w @ [Call argv rc]\<rparr>)"
  using install_after_tar [OF assms(1), of w] assms(2) by simp

theorem install_ignores_tar_exit_witness:
  "install (failing [''tar'', ''-xvzf'', ''/charm/files/kubernetes.tar.gz'', ''-C'', ''/charm/files''] 2 env_demo)
     w_demo =
   install_loop (failing [''tar'', ''-xvzf'', ''/charm/files/kubernetes.tar.gz'', ''-C'', ''/charm/files''] 2 env_demo)
     ''/charm/files'' ''/usr/local/bin/''
     [''kube-apiserver'', ''kube-controller-manager'', ''kube-scheduler'', ''kube-dns'']
     (w_demo\<lparr>trace := [Call [''tar'', ''-xvzf'', ''/charm/files/kubernetes.tar.gz'', ''-C'', ''/charm/files''] 2]\<rparr>)"
proof -
  let ?argv = "[''tar'', ''-xvzf'', ''/charm/files/kubernetes.tar.gz'', ''-C'', ''/charm/files'']"
  let ?e = "failing ?argv 2 env_demo"
  have cd: "charm_dir ?e = ''/charm''" by (simp add: env_demo_def failing_def)
  have sp: "shlex_split (''tar -xvzf '' @ path_join (path_join (charm_dir ?e) ''files'') ''kubernetes.tar.gz''
             @ '' -C '' @ path_join (charm_dir ?e) ''files'') = Inr ?argv"
    unfolding cd by (rule demo_tar_split)
  have rc: "fst (proc ?e ?argv) = 2" by (simp add: failing_def)
  have pj: "path_join ''/charm'' ''files'' = ''/charm/files''" by (simp add: path_join_def)
  have tr: "trace w_demo = []" by (simp add: w_demo_def)
  show ?thesis
    using install_ignores_tar_exit [OF sp rc, of w_demo]
    by (simp add: cd pj tr del: install_loop.simps)
qed

section \<open>The launch_dns handler\<close>

text \<open>
  C2: when the cluster probe fails, \<open>launch_dns\<close> clears the flag that gates it,
  creates no namespace, renders nothing, starts nothing and returns normally. The code
  does all of this except that the flag it removes is \<open>kubedns.available\<close>, not the
  \<open>kube-dns.available\<close> of its gate and of its \<open>set_state\<close>. The theorem runs the
  handler with a failing probe, first in a state where the gate holds and
  \<open>kubedns.available\<close> is set, then, called directly, in a state where
  \<open>kube-dns.available\<close> is set: that flag stays set.
\<close>

theorem launch_dns_clears_kubedns:
  "launch_dns_gate (w_demo\<lparr>flags := {''apiserver.available'', ''kubedns.available''}\<rparr>)
   \<and> launch_dns (failing [''kubectl'', ''cluster-info''] 1 env_demo)
        (w_demo\<lparr>flags := {''apiserver.available'', ''kubedns.available''}\<rparr>)
     = (Inr (),
        \<lparr>flags = {''apiserver.available''}, paths = [(''/charm'', Dir), (''/charm/files'', Dir)],
         trace = [StatusSet ''maintenance'' ''Rendering the Kubernetes DNS systemd files.'',
                  Call [''kubectl'', ''cluster-info''] 1,
                  Log ''kubectl command failed, waiting for apiserver to start.'',
                  RemoveState ''kubedns.available'']\<rparr>)
   \<and> ''kube-dns.available''
       \<in> flags (snd (launch_dns (failing [''kubectl'', ''cluster-info''] 1 env_demo)
                       (w_demo\<lparr>flags := {''apiserver.available'', ''kube-dns.available''}\<rparr>)))"
proof -
  have "fst (proc (failing [''kubectl'', ''cluster-info''] 1 env_demo) [''kubectl'', ''cluster-info'']) = 1"
    by (simp add: failing_def)
  then show ?thesis
    by (simp add: launch_dns_probe_fails launch_dns_gate_def w_demo_def insert_Diff_if)
qed

section \<open>Facts about rendering and the DNS launch\<close>

lemma etcd_context_returns: "\<exists>c1 w1. etcd_context r c w = (Inr c1, w1)"
  by (auto simp: etcd_context_def run_defs Let_def split: option.splits)

lemma etcd_context_closed:
  "\<exists>c1. etcd_context r c w = (Inr c1, w\<lparr>trace := trace w @ credential_events r\<rparr>)"
proof (cases "r = None \<or> (\<exists>x. r = Some x \<and> \<not> rel_truthy x)")
  case True
  then have "credential_events r = []" by (auto simp: credential_events_def)
  then show ?thesis using etcd_context_omitted [OF True] by simp
next
  case False
  then obtain x where x: "r = Some x" "rel_truthy x" by (cases r) auto
  then have "credential_events r = [SaveClientCredentials ''/etc/ssl/etcd/client-key.pem''
                  ''/etc/ssl/etcd/client-cert.pem'' ''/etc/ssl/etcd/client-ca.pem'']"
    by (simp add: credential_events_def)
  then show ?thesis using etcd_context_supplied [OF x(2)] x(1) by simp
qed

lemma gather_shape:
  assumes "gather_sdn_data e = Inr sdn"
  shows "\<exists>dns. get_dns_ip_of (if truthy (dict_get (kv e) ''sdn_subnet'')
                              then dict_get (kv e) ''sdn_subnet''
                              else dict_get (config e) ''cidr'') = Inr dns
             \<and> sdn = [(''pillar'', PDict [(''dns_server'', PStr dns), (''dns_replicas'', PInt 1),
                        (''dns_domain'', dict_get (config e) ''dns_domain'')])]"
  using assms by (auto simp: gather_sdn_data_def Let_def split: sum.splits if_splits)

lemma build_context_after_dirs:
  assumes sdn: "gather_sdn_data e = Inr sdn"
  shows "\<exists>c1 w0. fst (etcd_context r (dict_update (dict_update [] sdn) (config e)) w) = Inr c1
           \<and> build_context e r w =
               (case fst (work_dirs e w) of
                  Inl err \<Rightarrow> (Inl err, w0)
                | Inr u \<Rightarrow> bnd (arch e) (\<lambda>a. ret (dict_update c1 (final_entries e a))) w0)"
proof -
  obtain c1 where ec: "etcd_context r (dict_update (dict_update [] sdn) (config e)) w
                       = (Inr c1, w\<lparr>trace := trace w @ credential_events r\<rparr>)"
    using etcd_context_closed by blast
  let ?w0 = "w\<lparr>paths := paths (snd (work_dirs e w)),
               trace := (trace w @ credential_events r) @ effects (work_dirs e) w\<rparr>"
  have "build_context e r w =
          (case fst (work_dirs e w) of
             Inl err \<Rightarrow> (Inl err, ?w0)
           | Inr u \<Rightarrow> bnd (arch e) (\<lambda>a. ret (dict_update c1 (final_entries e a))) ?w0)"
    unfolding build_context_steps [OF sdn ec]
    by (cases "fst (work_dirs e w)") (simp_all add: bnd_def work_dirs_at)
  then show ?thesis using ec by auto
qed

lemma build_context_arch_fails:
  assumes "\<And>w. fst (arch e w) = Inl x"
  shows "fst (build_context e r w) =
           (case gather_sdn_data e of
              Inl err \<Rightarrow> Inl err
            | Inr s \<Rightarrow> (case fst (work_dirs e w) of Inl err \<Rightarrow> Inl err | Inr u \<Rightarrow> Inl x))"
proof (cases "gather_sdn_data e")
  case (Inl err)
  then show ?thesis by (simp add: build_context_def run_defs)
next
  case (Inr s)
  obtain c1 w0 where bc: "build_context e r w =
               (case fst (work_dirs e w) of
                  Inl err \<Rightarrow> (Inl err, w0)
                | Inr u \<Rightarrow> bnd (arch e) (\<lambda>a. ret (dict_update c1 (final_entries e a))) w0)"
    using build_context_after_dirs [OF Inr] by blast
  obtain w4 where d: "arch e w0 = (Inl x, w4)"
    using assms [of w0] by (cases "arch e w0") simp
  show ?thesis
    by (cases "fst (work_dirs e w)") (simp_all add: bc Inr bnd_def d)
qed

lemma build_context_result:
  assumes "fst (build_context e r w) = Inr ctx"
  shows "\<exists>sdn c1 a. gather_sdn_data e = Inr sdn
           \<and> fst (etcd_context r (dict_update (dict_update [] sdn) (config e)) w) = Inr c1
           \<and> ctx = dict_update c1 (final_entries e a)"
proof (cases "gather_sdn_data e")
  case (Inl err)
  then show ?thesis using assms by (simp add: build_context_def run_defs)
next
  case (Inr s)
  obtain c1 w0 where c1: "fst (etcd_context r (dict_update (dict_update [] s) (config e)) w) = Inr c1"
    and bc: "build_context e r w =
               (case fst (work_dirs e w) of
                  Inl err \<Rightarrow> (Inl err, w0)
                | Inr u \<Rightarrow> bnd (arch e) (\<lambda>a. ret (dict_update c1 (final_entries e a))) w0)"
    using build_context_after_dirs [OF Inr] by blast
  obtain ra w4 where d: "arch e w0 = (ra, w4)" by (cases "arch e w0")
  show ?thesis
  proof (cases "fst (work_dirs e w)")
    case (Inl err)
    then show ?thesis using assms by (simp add: bc)
  next
    case wd: (Inr u)
    show ?thesis
    proof (cases ra)
      case (Inl y)
      then show ?thesis using assms by (simp add: bc wd bnd_def d)
    next
      case ar: (Inr arch_name)
      have "ctx = dict_update c1 (final_entries e arch_name)"
        using assms by (simp add: bc wd bnd_def ret_def d ar)
      then show ?thesis using Inr c1 by auto
    qed
  qed
qed

lemma render_files_aborted:
  assumes "fst (build_context e r w) = Inl x"
  shows "render_files e r w = (Inl x, snd (build_context e r w))"
  using assms by (cases "build_context e r w") (simp add: render_files_def bnd_def)

lemma build_context_no_render:
  "emits (\<lambda>ev. \<forall>s t c. ev \<noteq> Render s t c) (build_context e r)"
  by (rule emits_build_context) (simp_all add: emits_etcd_context)

lemma effects_same: "snd (m w) = snd (m' w) \<Longrightarrow> effects m w = effects m' w"
  by (simp add: effects_def)

lemma render_files_aborted_no_render:
  assumes "fst (build_context e r w) = Inl x"
  shows "Render s t c \<notin> set (effects (render_files e r) w)"
proof -
  have "effects (render_files e r) w = effects (build_context e r) w"
    by (rule effects_same) (simp add: render_files_aborted [OF assms])
  moreover have "list_all (\<lambda>ev. \<forall>s t c. ev \<noteq> Render s t c) (effects (build_context e r) w)"
    by (rule emits_effects [OF build_context_no_render])
  ultimately show ?thesis by (auto simp: list_all_iff)
qed

lemma emits_start_dns:
  assumes "P (Print ''systemctl start kube-dns'')" and "\<And>rc. P (Call [''systemctl'', ''start'', ''kube-dns''] rc)"
  shows "emits P (start_service e ''kube-dns'')"
proof (rule emitsI)
  fix w
  have sp: "shlex_split (''systemctl start '' @ ''kube-dns'') = Inr [''systemctl'', ''start'', ''kube-dns'']"
    by (simp add: lex_defs)
  show "\<exists>evs. trace (snd (start_service e ''kube-dns'' w)) = trace w @ evs \<and> list_all P evs"
    unfolding start_service_split [OF sp] using assms by simp
qed

lemma dns_tail_no_create:
  "emits (\<lambda>ev. \<forall>rc. ev \<noteq> Call [''kubectl'', ''create'', ''namespace'', ''kube-system''] rc) (dns_tail e)"
  unfolding dns_tail_def
  by (intro emits_bnd emits_render_files emits_start_dns)
     (simp_all add: emits_etcd_context emits_set_state emits_ret)

lemma launch_dns_probe_ok:
  assumes "fst (proc e [''kubectl'', ''cluster-info'']) = 0"
  shows "launch_dns e w =
         bnd (if fst (proc e [''kubectl'', ''get'', ''namespace'', ''kube-system'']) \<noteq> 0
              then check_call e ''kubectl create namespace kube-system'' else ret ())
           (\<lambda>_. dns_tail e)
           (w\<lparr>trace := trace w @
               [StatusSet ''maintenance'' ''Rendering the Kubernetes DNS systemd files.'',
                Call [''kubectl'', ''cluster-info''] 0,
                Call [''kubectl'', ''get'', ''namespace'', ''kube-system'']
                  (fst (proc e [''kubectl'', ''get'', ''namespace'', ''kube-system'']))]\<rparr>)"
  unfolding launch_dns_def dns_tail_def status_set_def
  by (simp add: call_split [OF split_cluster_info] call_split [OF split_get_ns] assms bnd_def emit_def)

lemma check_call_split:
  "shlex_split c = Inr argv \<Longrightarrow>
   check_call e c w =
     (if fst (proc e argv) \<noteq> 0 then Inl (CalledProcessError argv (fst (proc e argv))) else Inr (),
      w\<lparr>trace := trace w @ [Call argv (fst (proc e argv))]\<rparr>)"
  by (simp add: check_call_def run_defs)

lemma keys_dict_update: "fst ` set (dict_update d e) = fst ` set d \<union> fst ` set e"
  unfolding dict_update_def
  by (induction e arbitrary: d) (simp_all add: dom_update split_beta)

lemma map_of_dict_update_other:
  "k \<notin> fst ` set e \<Longrightarrow> map_of (dict_update d e) k = map_of d k"
  unfolding dict_update_def
  by (induction e arbitrary: d) (auto simp: update_conv')

lemma gather_keys: "gather_sdn_data e = Inr sdn \<Longrightarrow> fst ` set sdn = {''pillar''}"
  using gather_shape [of e sdn] by auto

lemma etcd_entries_lookup:
  "map_of (dict_update c (etcd_entries r)) ''connection_string'' = Some (PStr (connection_string r))"
  "map_of (dict_update c (etcd_entries r)) ''etcd_dir'' = Some (PStr ''/etc/ssl/etcd'')"
  "map_of (dict_update c (etcd_entries r)) ''etcd_ca'' = Some (PStr ''/etc/ssl/etcd/client-ca.pem'')"
  "map_of (dict_update c (etcd_entries r)) ''etcd_key'' = Some (PStr ''/etc/ssl/etcd/client-key.pem'')"
  "map_of (dict_update c (etcd_entries r)) ''etcd_cert'' = Some (PStr ''/etc/ssl/etcd/client-cert.pem'')"
  by (simp_all add: dict_update_def etcd_entries_def update_conv')

lemma final_keys:
  "fst ` set (final_entries e a) =
     {''arch'', ''master_address'', ''manifest_directory'', ''public_address'', ''private_address''}"
  by (simp add: final_entries_def)

lemma etcd_key_not_final:
  assumes "k \<in> set [''connection_string'', ''etcd_ca'', ''etcd_key'', ''etcd_cert'', ''etcd_dir'']"
  shows "k \<notin> fst ` set (final_entries e a)" and "k \<noteq> ''pillar''"
  using assms unfolding final_keys by auto

lemma build_context_no_credentials:
  assumes "r = None \<or> (\<exists>x. r = Some x \<and> \<not> rel_truthy x)"
  shows "emits (\<lambda>ev. \<forall>k c a. ev \<noteq> SaveClientCredentials k c a) (build_context e r)"
  by (rule emits_build_context) (simp_all add: emits_etcd_context_omitted [OF assms])

section \<open>Architecture detection\<close>

text \<open>
  C6: \<open>arch\<close> returns the detected value, trimmed of trailing whitespace, when it is one
  of amd64, arm, arm64, ppc64le. For any other detected value it first sets the status
  \<open>blocked\<close> with a message naming the architecture and then raises; the exception
  aborts the enclosing \<open>render_files\<close> (unless the SDN data or the creation of a
  working directory had failed before) and no service file is rendered. A value is
  detected when \<open>dpkg\<close> exits with 0 and prints text, that is, bytes that decode as
  UTF-8.
\<close>

theorem arch_detection:
  assumes dpkg: "proc e [''dpkg'', ''--print-architecture''] = (0, out)"
    and utf8: "valid_utf8 (map of_char (rstrip out))"
  shows "(rstrip out \<in> set [''amd64'', ''arm'', ''arm64'', ''ppc64le''] \<longrightarrow>
            arch e w = (Inr (rstrip out),
                        w\<lparr>trace := trace w @ [Call [''dpkg'', ''--print-architecture''] 0]\<rparr>))
       \<and> (rstrip out \<notin> set [''amd64'', ''arm'', ''arm64'', ''ppc64le''] \<longrightarrow>
            arch e w =
              (Inl (Exception (''Unsupported machine architecture: '' @ rstrip out)),
               w\<lparr>trace := trace w @ [Call [''dpkg'', ''--print-architecture''] 0,
                     StatusSet ''blocked'' (''Unsupported machine architecture: '' @ rstrip out)]\<rparr>)
          \<and> fst (render_files e reldata w') =
              (case gather_sdn_data e of
                 Inl err \<Rightarrow> Inl err
               | Inr sdn \<Rightarrow>
                   (case fst (work_dirs e w') of
                      Inl err \<Rightarrow> Inl err
                    | Inr u \<Rightarrow> Inl (Exception (''Unsupported machine architecture: '' @ rstrip out))))
          \<and> (\<forall>s t c. Render s t c \<notin> set (effects (render_files e reldata) w')))"
proof (intro conjI impI)
  assume "rstrip out \<in> set [''amd64'', ''arm'', ''arm64'', ''ppc64le'']"
  then show "arch e w = (Inr (rstrip out),
                        w\<lparr>trace := trace w @ [Call [''dpkg'', ''--print-architecture''] 0]\<rparr>)"
    by (rule arch_supported [OF dpkg])
next
  assume no: "rstrip out \<notin> set [''amd64'', ''arm'', ''arm64'', ''ppc64le'']"
  let ?x = "Exception (''Unsupported machine architecture: '' @ rstrip out)"
  show "arch e w = (Inl ?x,
               w\<lparr>trace := trace w @ [Call [''dpkg'', ''--print-architecture''] 0,
                     StatusSet ''blocked'' (''Unsupported machine architecture: '' @ rstrip out)]\<rparr>)"
    by (rule arch_unsupported [OF dpkg utf8 no])
  have fails: "fst (arch e v) = Inl ?x" for v
    by (simp add: arch_unsupported [OF dpkg utf8 no])
  have bc: "fst (build_context e reldata w') =
              (case gather_sdn_data e of
                 Inl err \<Rightarrow> Inl err
               | Inr s \<Rightarrow> (case fst (work_dirs e w') of Inl err \<Rightarrow> Inl err | Inr u \<Rightarrow> Inl ?x))"
    by (rule build_context_arch_fails [OF fails])
  then obtain y where y: "fst (build_context e reldata w') = Inl y"
    by (cases "gather_sdn_data e"; cases "fst (work_dirs e w')") simp_all
  show "fst (render_files e reldata w') =
          (case gather_sdn_data e of
             Inl err \<Rightarrow> Inl err
           | Inr sdn \<Rightarrow> (case fst (work_dirs e w') of Inl err \<Rightarrow> Inl err | Inr u \<Rightarrow> Inl ?x))"
  proof (cases "gather_sdn_data e")
    case (Inl err)
    with bc have "fst (build_context e reldata w') = Inl err" by simp
    then show ?thesis using Inl by (simp add: render_files_aborted)
  next
    case (Inr s)
    show ?thesis
    proof (cases "fst (work_dirs e w')")
      case (Inl err)
      with bc Inr have "fst (build_context e reldata w') = Inl err" by simp
      then show ?thesis using Inr Inl by (simp add: render_files_aborted)
    next
      case wd: (Inr u)
      with bc Inr have "fst (build_context e reldata w') = Inl ?x" by simp
      then show ?thesis using Inr wd by (simp add: render_files_aborted)
    qed
  qed
  show "\<forall>s t c. Render s t c \<notin> set (effects (render_files e reldata) w')"
    using render_files_aborted_no_render [OF y] by blast
qed

theorem arch_detection_witness:
  "arch env_i386 w_demo =
     (Inl (Exception ''Unsupported machine architecture: i386''),
      w_demo\<lparr>trace := [Call [''dpkg'', ''--print-architecture''] 0,
                        StatusSet ''blocked'' ''Unsupported machine architecture: i386'']\<rparr>)
   \<and> fst (render_files env_i386 None w_demo) = Inl (Exception ''Unsupported machine architecture: i386'')
   \<and> arch env_demo w_demo =
       (Inr ''amd64'', w_demo\<lparr>trace := [Call [''dpkg'', ''--print-architecture''] 0]\<rparr>)"
proof -
  have p: "proc env_i386 [''dpkg'', ''--print-architecture''] = (0, ''i386'' @ [CHR 0x0A])"
    by (simp add: env_i386_def)
  have r: "rstrip (''i386'' @ [CHR 0x0A]) = ''i386''"
    by (simp add: rstrip_def space_byte_def)
  have u: "valid_utf8 (map of_char (rstrip (''i386'' @ [CHR 0x0A])))"
    unfolding r by simp
  have g: "gather_sdn_data env_i386 = gather_sdn_data env_demo"
  proof -
    have c: "config env_i386 = config env_demo" and k: "kv env_i386 = kv env_demo"
      by (simp_all add: env_i386_def)
    show ?thesis unfolding gather_sdn_data_def c k by (rule refl)
  qed
  have p2: "proc env_demo [''dpkg'', ''--print-architecture''] = (0, ''amd64'' @ [CHR 0x0A])"
    by (simp add: env_demo_def)
  have r2: "rstrip (''amd64'' @ [CHR 0x0A]) = ''amd64''"
    by (simp add: rstrip_def space_byte_def)
  have u2: "valid_utf8 (map of_char (rstrip (''amd64'' @ [CHR 0x0A])))"
    unfolding r2 by simp
  have t: "trace w_demo = []" by (simp add: w_demo_def)
  have wd: "fst (work_dirs env_i386 w_demo) = Inr ()"
    by (rule demo_work_dirs_effects) (simp_all add: env_i386_def env_demo_def w_demo_def)
  show ?thesis
    using arch_detection [OF p u, of w_demo None w_demo] arch_detection [OF p2 u2, of w_demo None w_demo]
    by (simp add: rstrip_def space_byte_def g gather_demo t wd)
qed

section \<open>Namespace handling in launch_dns\<close>

text \<open>
  C7: after a successful cluster probe, \<open>launch_dns\<close> runs the namespace creation
  command if and only if the existence check exits non-zero, and a non-zero exit of the
  creation command is raised as CalledProcessError, nothing being rendered or started.
\<close>

theorem launch_dns_namespace:
  assumes probe: "fst (proc e [''kubectl'', ''cluster-info'']) = 0"
  shows "((\<exists>rc. Call [''kubectl'', ''create'', ''namespace'', ''kube-system''] rc
               \<in> set (effects (launch_dns e) w))
          = (fst (proc e [''kubectl'', ''get'', ''namespace'', ''kube-system'']) \<noteq> 0))
       \<and> (fst (proc e [''kubectl'', ''get'', ''namespace'', ''kube-system'']) \<noteq> 0
            \<and> fst (proc e [''kubectl'', ''create'', ''namespace'', ''kube-system'']) \<noteq> 0 \<longrightarrow>
          launch_dns e w =
            (Inl (CalledProcessError [''kubectl'', ''create'', ''namespace'', ''kube-system'']
                    (fst (proc e [''kubectl'', ''create'', ''namespace'', ''kube-system'']))),
             w\<lparr>trace := trace w @
                 [StatusSet ''maintenance'' ''Rendering the Kubernetes DNS systemd files.'',
                  Call [''kubectl'', ''cluster-info''] 0,
                  Call [''kubectl'', ''get'', ''namespace'', ''kube-system'']
                    (fst (proc e [''kubectl'', ''get'', ''namespace'', ''kube-system''])),
                  Call [''kubectl'', ''create'', ''namespace'', ''kube-system'']
                    (fst (proc e [''kubectl'', ''create'', ''namespace'', ''kube-system'']))]\<rparr>))"
proof -
  let ?get = "[''kubectl'', ''get'', ''namespace'', ''kube-system'']"
  let ?create = "[''kubectl'', ''create'', ''namespace'', ''kube-system'']"
  let ?pre = "[StatusSet ''maintenance'' ''Rendering the Kubernetes DNS systemd files.'',
               Call [''kubectl'', ''cluster-info''] 0, Call ?get (fst (proc e ?get))]"
  let ?w1 = "w\<lparr>trace := trace w @ ?pre\<rparr>"
  let ?w2 = "?w1\<lparr>trace := trace ?w1 @ [Call ?create (fst (proc e ?create))]\<rparr>"
  have tail: "Call ?create rc \<notin> set (effects (dns_tail e) v)" for rc v
    using emits_effects [OF dns_tail_no_create, of e v] by (auto simp: list_all_iff)
  have ttr: "trace (snd (dns_tail e v)) = trace v @ effects (dns_tail e) v" for v
    by (rule emits_trace [OF dns_tail_no_create])
  show ?thesis
  proof (cases "fst (proc e ?get) = 0")
    case True
    have ld: "launch_dns e w = dns_tail e ?w1"
      by (simp add: launch_dns_probe_ok [OF probe] True bnd_def ret_def)
    have ef: "effects (launch_dns e) w = ?pre @ effects (dns_tail e) ?w1"
      by (rule effects_eq) (simp add: ld ttr)
    show ?thesis using True tail by (simp add: ef)
  next
    case False
    show ?thesis
    proof (cases "fst (proc e ?create) = 0")
      case True
      have ld: "launch_dns e w = dns_tail e ?w2"
        using False True
        by (simp add: launch_dns_probe_ok [OF probe] bnd_def check_call_split [OF split_create_ns])
      have ef: "effects (launch_dns e) w = ?pre @ Call ?create (fst (proc e ?create)) # effects (dns_tail e) ?w2"
        by (rule effects_eq) (simp add: ld ttr)
      show ?thesis using False True by (auto simp: ef)
    next
      case nz: False
      have ld: "launch_dns e w = (Inl (CalledProcessError ?create (fst (proc e ?create))), ?w2)"
        using False nz
        by (simp add: launch_dns_probe_ok [OF probe] bnd_def check_call_split [OF split_create_ns])
      have ef: "effects (launch_dns e) w = ?pre @ [Call ?create (fst (proc e ?create))]"
        by (rule effects_eq) (simp add: ld)
      show ?thesis using False nz by (auto simp: ef ld)
    qed
  qed
qed

theorem launch_dns_namespace_witness:
  "(\<exists>rc. Call [''kubectl'', ''create'', ''namespace'', ''kube-system''] rc
        \<in> set (effects (launch_dns (failing [''kubectl'', ''get'', ''namespace'', ''kube-system''] 1 env_demo))
                w_demo))
   \<and> \<not> (\<exists>rc. Call [''kubectl'', ''create'', ''namespace'', ''kube-system''] rc
        \<in> set (effects (launch_dns env_demo) w_demo))"
proof -
  have a: "fst (proc (failing [''kubectl'', ''get'', ''namespace'', ''kube-system''] 1 env_demo)
                 [''kubectl'', ''cluster-info'']) = 0"
    by (simp add: failing_def env_demo_def)
  have b: "fst (proc (failing [''kubectl'', ''get'', ''namespace'', ''kube-system''] 1 env_demo)
                 [''kubectl'', ''get'', ''namespace'', ''kube-system'']) \<noteq> 0"
    by (simp add: failing_def)
  have c: "fst (proc env_demo [''kubectl'', ''cluster-info'']) = 0"
    by (simp add: env_demo_def)
  have d: "fst (proc env_demo [''kubectl'', ''get'', ''namespace'', ''kube-system'']) = 0"
    by (simp add: env_demo_def)
  show ?thesis
    using launch_dns_namespace [OF a, of w_demo] launch_dns_namespace [OF c, of w_demo] b d
    by simp
qed

section \<open>The render_files orchestration\<close>








section \<open>The etcd keys of the context\<close>

text \<open>
  C4, as stated, fails: with no relation object the context still has the key
  \<open>etcd_dir\<close> when the configuration has an option of that name, because the whole
  configuration is merged into the context.
\<close>

theorem context_has_configured_etcd_dir:
  "fst (build_context env_etcd_option None w_demo) =
     Inr [(''pillar'', PDict [(''dns_server'', PStr ''10.1.0.10''), (''dns_replicas'', PInt 1),
                              (''dns_domain'', PStr ''cluster.local'')]),
          (''cidr'', PStr ''10.1.0.0/16''),
          (''dns_domain'', PStr ''cluster.local''),
          (''etcd_dir'', PStr ''/srv/etcd''),
          (''arch'', PStr ''amd64''),
          (''master_address'', PStr ''10.0.0.5''),
          (''manifest_directory'', PStr ''/charm/files/manifests''),
          (''public_address'', PStr ''203.0.113.5''),
          (''private_address'', PStr ''10.0.0.5'')]"
proof -
  have g: "gather_sdn_data env_etcd_option =
     Inr [(''pillar'', PDict [(''dns_server'', PStr ''10.1.0.10''), (''dns_replicas'', PInt 1),
                              (''dns_domain'', PStr ''cluster.local'')])]"
    by (simp add: gather_sdn_data_def env_etcd_option_def env_demo_def dict_get_def get_dns_ip_of_def
          get_dns_ip_def index0_def)
  have p: "proc env_etcd_option [''dpkg'', ''--print-architecture''] = (0, ''amd64'' @ [CHR 0x0A])"
    by (simp add: env_etcd_option_def env_demo_def)
  have ec: "etcd_context None c w_demo = (Inr c, w_demo\<lparr>trace := trace w_demo @ []\<rparr>)" for c
    by (simp add: etcd_context_def ret_def)
  have wd: "fst (work_dirs env_etcd_option w_demo) = Inr ()"
    by (rule demo_work_dirs_effects) (simp_all add: env_etcd_option_def env_demo_def w_demo_def)
  note bc = build_context_ok [OF g p demo_supported ec wd]
  show ?thesis
    unfolding bc
    by (simp add: dict_update_def final_entries_def env_etcd_option_def env_demo_def path_join_def
          rstrip_def space_byte_def)
qed

text \<open>
  C4, amended: in a context that \<open>build_context\<close> returns, a relation object that
  Python takes as true gives \<open>connection_string\<close> its connection string, \<open>etcd_dir\<close>
  the value \<open>/etc/ssl/etcd\<close> and \<open>etcd_ca\<close>, \<open>etcd_key\<close>, \<open>etcd_cert\<close> the three paths
  under that directory. Without one (none given, or one taken as false) each of the five
  keys is in the context exactly when the configuration has it, and the credentials are
  not materialized.
\<close>

theorem context_etcd_keys:
  assumes ok: "fst (build_context e reldata w) = Inr ctx"
  shows "(\<forall>r. reldata = Some r \<and> rel_truthy r \<longrightarrow>
            map_of ctx ''connection_string'' = Some (PStr (connection_string r))
          \<and> map_of ctx ''etcd_dir'' = Some (PStr ''/etc/ssl/etcd'')
          \<and> map_of ctx ''etcd_ca'' = Some (PStr ''/etc/ssl/etcd/client-ca.pem'')
          \<and> map_of ctx ''etcd_key'' = Some (PStr ''/etc/ssl/etcd/client-key.pem'')
          \<and> map_of ctx ''etcd_cert'' = Some (PStr ''/etc/ssl/etcd/client-cert.pem''))
       \<and> (reldata = None \<or> (\<exists>r. reldata = Some r \<and> \<not> rel_truthy r) \<longrightarrow>
            (\<forall>k \<in> set [''connection_string'', ''etcd_ca'', ''etcd_key'', ''etcd_cert'', ''etcd_dir''].
               (k \<in> fst ` set ctx) = (k \<in> fst ` set (config e)))
          \<and> (\<forall>k c a. SaveClientCredentials k c a \<notin> set (effects (build_context e reldata) w)))"
proof -
  obtain sdn c1 a where sdn: "gather_sdn_data e = Inr sdn"
    and c1: "fst (etcd_context reldata (dict_update (dict_update [] sdn) (config e)) w) = Inr c1"
    and ctx: "ctx = dict_update c1 (final_entries e a)"
    using build_context_result [OF ok] by blast
  let ?c0 = "dict_update (dict_update [] sdn) (config e)"
  have supplied: "map_of ctx k = map_of (dict_update ?c0 (etcd_entries r)) k"
    if "reldata = Some r" "rel_truthy r"
       "k \<in> set [''connection_string'', ''etcd_ca'', ''etcd_key'', ''etcd_cert'', ''etcd_dir'']" for r k
  proof -
    have "c1 = dict_update ?c0 (etcd_entries r)"
      using c1 that(1) etcd_context_supplied [OF that(2), of ?c0 w] by simp
    then show ?thesis
      unfolding ctx using map_of_dict_update_other [OF etcd_key_not_final(1) [OF that(3)]] by simp
  qed
  have omitted: "(k \<in> fst ` set ctx) = (k \<in> fst ` set (config e))"
    if "reldata = None \<or> (\<exists>r. reldata = Some r \<and> \<not> rel_truthy r)"
       "k \<in> set [''connection_string'', ''etcd_ca'', ''etcd_key'', ''etcd_cert'', ''etcd_dir'']" for k
  proof -
    have "c1 = ?c0" using c1 etcd_context_omitted [OF that(1), of ?c0 w] by simp
    then have "fst ` set ctx = {''pillar''} \<union> fst ` set (config e) \<union> fst ` set (final_entries e a)"
      unfolding ctx by (simp add: keys_dict_update gather_keys [OF sdn])
    then show ?thesis
      using etcd_key_not_final(1) [OF that(2), of e a] etcd_key_not_final(2) [OF that(2)] by auto
  qed
  have nocred: "SaveClientCredentials k c a' \<notin> set (effects (build_context e reldata) w)"
    if "reldata = None \<or> (\<exists>r. reldata = Some r \<and> \<not> rel_truthy r)" for k c a'
    using emits_effects [OF build_context_no_credentials [OF that], of e w]
    by (auto simp: list_all_iff)
  show ?thesis
  proof (intro conjI allI impI ballI)
    fix r assume "reldata = Some r \<and> rel_truthy r"
    then have r: "reldata = Some r" "rel_truthy r" by simp_all
    show "map_of ctx ''connection_string'' = Some (PStr (connection_string r))"
      using supplied [OF r, of "''connection_string''"] by (simp add: etcd_entries_lookup)
    show "map_of ctx ''etcd_dir'' = Some (PStr ''/etc/ssl/etcd'')"
      using supplied [OF r, of "''etcd_dir''"] by (simp add: etcd_entries_lookup)
    show "map_of ctx ''etcd_ca'' = Some (PStr ''/etc/ssl/etcd/client-ca.pem'')"
      using supplied [OF r, of "''etcd_ca''"] by (simp add: etcd_entries_lookup)
    show "map_of ctx ''etcd_key'' = Some (PStr ''/etc/ssl/etcd/client-key.pem'')"
      using supplied [OF r, of "''etcd_key''"] by (simp add: etcd_entries_lookup)
    show "map_of ctx ''etcd_cert'' = Some (PStr ''/etc/ssl/etcd/client-cert.pem'')"
      using supplied [OF r, of "''etcd_cert''"] by (simp add: etcd_entries_lookup)
  next
    fix k
    assume "reldata = None \<or> (\<exists>r. reldata = Some r \<and> \<not> rel_truthy r)"
      and "k \<in> set [''connection_string'', ''etcd_ca'', ''etcd_key'', ''etcd_cert'', ''etcd_dir'']"
    then show "(k \<in> fst ` set ctx) = (k \<in> fst ` set (config e))" by (rule omitted)
  next
    fix k c a'
    assume "reldata = None \<or> (\<exists>r. reldata = Some r \<and> \<not> rel_truthy r)"
    then show "SaveClientCredentials k c a' \<notin> set (effects (build_context e reldata) w)"
      by (rule nocred)
  qed
qed

theorem context_etcd_keys_witness:
  "\<exists>ctx. fst (build_context env_demo (Some rel_demo) w_demo) = Inr ctx
         \<and> map_of ctx ''etcd_dir'' = Some (PStr ''/etc/ssl/etcd'')
         \<and> map_of ctx ''connection_string'' = Some (PStr ''https://10.0.0.9:2379'')
         \<and> map_of ctx ''etcd_ca'' = Some (PStr ''/etc/ssl/etcd/client-ca.pem'')"
proof -
  have t: "rel_truthy rel_demo" by (simp add: rel_demo_def)
  have ec: "etcd_context (Some rel_demo) c w_demo =
              (Inr (dict_update c (etcd_entries rel_demo)),
               w_demo\<lparr>trace := trace w_demo @ [SaveClientCredentials ''/etc/ssl/etcd/client-key.pem''
                  ''/etc/ssl/etcd/client-cert.pem'' ''/etc/ssl/etcd/client-ca.pem'']\<rparr>)" for c
    by (rule etcd_context_supplied [OF t])
  have wd: "fst (work_dirs env_demo w_demo) = Inr ()"
    by (rule demo_work_dirs_effects) (simp_all add: env_demo_def w_demo_def)
  note bc = build_context_ok [OF gather_demo demo_dpkg demo_supported ec wd]
  let ?ctx = "fst (build_context env_demo (Some rel_demo) w_demo)"
  obtain ctx where ctx: "fst (build_context env_demo (Some rel_demo) w_demo) = Inr ctx"
    using bc by simp
  have cs: "connection_string rel_demo = ''https://10.0.0.9:2379''" by (simp add: rel_demo_def)
  show ?thesis
    using context_etcd_keys [OF ctx] ctx t cs by auto
qed

end
